theory Spec2Isabelle
  imports Complex_Main "HOL-Library.AList"
begin

section \<open>Values on the wire and configuration\<close>

text \<open>
  Socket.io and express.json deliver JSON, so a payload field is one of the values below
  (\<open>JUndefined\<close> is a missing field; NaN and the infinities cannot arrive).  Numbers are
  modelled as rationals: the arithmetic of the server is taken exactly, without the rounding
  of IEEE doubles.  Wall-clock instants (\<open>Date.now()\<close>) are integers, in milliseconds.

  The server is modelled by explicit state passing: a handler takes the configuration, the
  wall clock, the sending socket, the payload and the state of the server, and returns the
  new state with the list of events it emits, in order.  One reading of the clock serves a
  whole handler, and the handler of \<open>set-playlist\<close>, which awaits the track lists, is
  taken as one step.

  A field that a handler validates is modelled as a \<open>jsval\<close>, so that the validation is
  a branch of the model.  A field that a handler stores without looking at it is modelled at
  the type the protocol gives it (a rate is a number, a play flag a boolean); track indices,
  which are only stored and sent back, stay \<open>jsval\<close>s.
\<close>

datatype jsval = JUndefined | JNull | JBool bool | JNum rat | JStr string | JObject

subsection \<open>The JavaScript operations the handlers use\<close>

definition truthy :: "jsval \<Rightarrow> bool" where
  "truthy v = (case v of JUndefined \<Rightarrow> False | JNull \<Rightarrow> False | JBool b \<Rightarrow> b
                 | JNum r \<Rightarrow> r \<noteq> 0 | JStr s \<Rightarrow> s \<noteq> [] | JObject \<Rightarrow> True)"

definition is_digit :: "char \<Rightarrow> bool" where
  "is_digit c = (48 \<le> (of_char c :: nat) \<and> (of_char c :: nat) \<le> 57)"

definition digit_val :: "char \<Rightarrow> nat" where
  "digit_val c = of_char c - 48"

definition dec_value :: "string \<Rightarrow> nat" where
  "dec_value ds = foldl (\<lambda>a c. 10 * a + digit_val c) 0 ds"

definition is_hex_digit :: "char \<Rightarrow> bool" where
  "is_hex_digit c = (c \<in> set ''0123456789abcdefABCDEF'')"

definition hex_digit_val :: "char \<Rightarrow> nat" where
  "hex_digit_val c =
     (if is_digit c then digit_val c
      else if 97 \<le> (of_char c :: nat) then of_char c - 87 else of_char c - 55)"

definition hex_value :: "string \<Rightarrow> nat" where
  "hex_value ds = foldl (\<lambda>a c. 16 * a + hex_digit_val c) 0 ds"

definition digit_char :: "nat \<Rightarrow> char" where
  "digit_char d = ''0123456789'' ! d"

text \<open>\<open>String(n)\<close> for a natural number \<open>n\<close> (below \<open>10^21\<close>, where JavaScript still
  prints every digit): the key under which \<open>obj[n]\<close> is stored.\<close>

fun dec_string :: "nat \<Rightarrow> string" where
  "dec_string n = (if n < 10 then [digit_char n]
                   else dec_string (n div 10) @ [digit_char (n mod 10)])"

declare dec_string.simps [simp del]

text \<open>\<open>toLowerCase\<close> and \<open>toUpperCase\<close>, on the ASCII letters.\<close>

definition toLowerCase_char :: "char \<Rightarrow> char" where
  "toLowerCase_char c =
     (case map_of (zip ''ABCDEFGHIJKLMNOPQRSTUVWXYZ'' ''abcdefghijklmnopqrstuvwxyz'') c of
        Some l \<Rightarrow> l | None \<Rightarrow> c)"

definition toLowerCase :: "string \<Rightarrow> string" where
  "toLowerCase s = map toLowerCase_char s"

definition toUpperCase_char :: "char \<Rightarrow> char" where
  "toUpperCase_char c =
     (case map_of (zip ''abcdefghijklmnopqrstuvwxyz'' ''ABCDEFGHIJKLMNOPQRSTUVWXYZ'') c of
        Some u \<Rightarrow> u | None \<Rightarrow> c)"

definition toUpperCase :: "string \<Rightarrow> string" where
  "toUpperCase s = map toUpperCase_char s"

definition startsWith :: "string \<Rightarrow> string \<Rightarrow> bool" where
  "startsWith s p = (take (length p) s = p)"

definition endsWith :: "string \<Rightarrow> string \<Rightarrow> bool" where
  "endsWith s p = (length p \<le> length s \<and> drop (length s - length p) s = p)"

text \<open>\<open>s.substring(s.lastIndexOf('.'))\<close>: from the last dot on, and the whole string when
  there is no dot (\<open>lastIndexOf\<close> is then -1, which \<open>substring\<close> reads as 0).\<close>

definition substring_lastIndexOf_dot :: "string \<Rightarrow> string" where
  "substring_lastIndexOf_dot s =
     (if CHR ''.'' \<in> set s
      then CHR ''.'' # rev (takeWhile (\<lambda>c. c \<noteq> CHR ''.'') (rev s))
      else s)"

text \<open>\<open>Number.isInteger\<close>, and the server's three number tests.\<close>

definition isInteger :: "rat \<Rightarrow> bool" where
  "isInteger r = (of_int \<lfloor>r\<rfloor> = r)"

definition matches_integer_pattern :: "string \<Rightarrow> bool" where
  \<comment> \<open>the regular expression \<open>/^-?\d+$/\<close>\<close>
  "matches_integer_pattern s =
     (let ds = (case s of c # cs \<Rightarrow> if c = CHR ''-'' then cs else s | [] \<Rightarrow> s)
      in ds \<noteq> [] \<and> list_all is_digit ds)"

definition isValidInteger :: "jsval \<Rightarrow> bool" where
  "isValidInteger v =
     (case v of JNum r \<Rightarrow> isInteger r | JStr s \<Rightarrow> matches_integer_pattern s | _ \<Rightarrow> False)"

definition isValidNumber :: "jsval \<Rightarrow> bool" where
  "isValidNumber v = (case v of JNum r \<Rightarrow> True | _ \<Rightarrow> False)"

text \<open>\<open>parseInt\<close> on a string: white space is skipped, a sign is read, and the longest run
  of digits is the value; \<open>None\<close> is NaN.  With radix 10 a prefix \<open>0x\<close> is the digit 0;
  with no radix it announces hexadecimal digits.\<close>

definition is_space :: "char \<Rightarrow> bool" where
  "is_space c = ((of_char c :: nat) \<in> {9, 10, 11, 12, 13, 32})"

definition read_sign :: "string \<Rightarrow> int \<times> string" where
  "read_sign s =
     (case s of c # cs \<Rightarrow> if c = CHR ''-'' then (-1, cs) else if c = CHR ''+'' then (1, cs) else (1, s)
              | [] \<Rightarrow> (1, s))"

definition parseInt10 :: "string \<Rightarrow> int option" where
  "parseInt10 s =
     (let (sign, s1) = read_sign (dropWhile is_space s); z = takeWhile is_digit s1
      in if z = [] then None else Some (sign * int (dec_value z)))"

definition parseInt_string :: "string \<Rightarrow> int option" where
  "parseInt_string s =
     (let (sign, s1) = read_sign (dropWhile is_space s)
      in if startsWith s1 ''0x'' \<or> startsWith s1 ''0X''
         then (let z = takeWhile is_hex_digit (drop 2 s1)
               in if z = [] then None else Some (sign * int (hex_value z)))
         else (let z = takeWhile is_digit s1
               in if z = [] then None else Some (sign * int (dec_value z))))"

text \<open>\<open>parseInt\<close> on a number first prints it.  From \<open>10^-6\<close> up to \<open>10^21\<close> the print is
  positional and the result is the number truncated toward zero; outside, the print is in
  exponent notation (\<open>5e-7\<close>) and the result is its leading digit.  A double is between
  \<open>10^-324\<close> and \<open>10^309\<close>, so 400 decimal shifts always reach the leading digit.\<close>

fun leading_digit_up :: "nat \<Rightarrow> rat \<Rightarrow> int" where
  "leading_digit_up 0 x = \<lfloor>x\<rfloor>"
| "leading_digit_up (Suc n) x = (if 1 \<le> x then \<lfloor>x\<rfloor> else leading_digit_up n (10 * x))"

fun leading_digit_down :: "nat \<Rightarrow> rat \<Rightarrow> int" where
  "leading_digit_down 0 x = \<lfloor>x\<rfloor>"
| "leading_digit_down (Suc n) x = (if x < 10 then \<lfloor>x\<rfloor> else leading_digit_down n (x / 10))"

definition parseInt_number :: "rat \<Rightarrow> int" where
  "parseInt_number r =
     (if r = 0 then 0
      else if \<bar>r\<bar> < 1 / 10 ^ 6 then (if r < 0 then -1 else 1) * leading_digit_up 400 \<bar>r\<bar>
      else if \<bar>r\<bar> < 10 ^ 21 then (if r < 0 then - \<lfloor>- r\<rfloor> else \<lfloor>r\<rfloor>)
      else (if r < 0 then -1 else 1) * leading_digit_down 400 \<bar>r\<bar>)"

definition parseInt :: "jsval \<Rightarrow> int option" where
  "parseInt v = (case v of JNum r \<Rightarrow> Some (parseInt_number r) | JStr s \<Rightarrow> parseInt_string s
                   | _ \<Rightarrow> None)"

definition isInRange :: "jsval \<Rightarrow> rat \<Rightarrow> rat \<Rightarrow> bool" where
  "isInRange v lo hi =
     (case v of
        JStr s \<Rightarrow> (case parseInt10 s of None \<Rightarrow> False | Some n \<Rightarrow> lo \<le> of_int n \<and> of_int n \<le> hi)
      | JNum r \<Rightarrow> lo \<le> r \<and> r \<le> hi
      | _ \<Rightarrow> False)"

definition validateTrackIndex :: "jsval \<Rightarrow> bool" where
  "validateTrackIndex v =
     (if \<not> isValidInteger v then False
      else (case v of JStr s \<Rightarrow> (case parseInt10 s of None \<Rightarrow> False | Some n \<Rightarrow> n \<ge> -1)
                    | JNum r \<Rightarrow> r \<ge> -1
                    | _ \<Rightarrow> False))"

definition validateCurrentTime :: "jsval \<Rightarrow> bool" where
  "validateCurrentTime v = (isValidNumber v \<and> (case v of JNum r \<Rightarrow> r \<ge> 0 | _ \<Rightarrow> False))"

definition validateDriftSeconds :: "jsval \<Rightarrow> bool" where
  "validateDriftSeconds v = isInRange v (-60) 60"

text \<open>\<open>v < 0\<close> for a value that passed \<open>isValidInteger\<close>: a string is read as a number.\<close>

definition less_than_zero :: "jsval \<Rightarrow> bool" where
  "less_than_zero v =
     (case v of JNum r \<Rightarrow> r < 0
              | JStr s \<Rightarrow> (case parseInt10 s of None \<Rightarrow> False | Some n \<Rightarrow> n < 0)
              | _ \<Rightarrow> False)"

text \<open>The property key of \<open>obj[v]\<close> for a value that passed \<open>isValidInteger\<close> and is not
  negative: a string is its own key, a number is printed.\<close>

definition property_key :: "jsval \<Rightarrow> string" where
  "property_key v = (case v of JStr s \<Rightarrow> s | JNum r \<Rightarrow> dec_string (nat \<lfloor>r\<rfloor>) | _ \<Rightarrow> [])"

record config =
  SERVER_MODE :: bool
  ADMIN_FINGERPRINT_LOCK :: bool
  CLIENT_CONTROLS_DISABLED :: bool
  CLIENT_SYNC_DISABLED :: bool
  VIDEO_AUTOPLAY :: bool
  SKIP_SECONDS :: rat
  BSL_ADVANCED_MATCH :: bool
  BSL_ADVANCED_MATCH_THRESHOLD :: nat
  BSL_S2_MODE :: string
  FFMPEG_TOOLS_PASSWORD_HASH :: "string option"

section \<open>Playback state, playlist and rooms\<close>

record video_state =
  isPlaying :: bool
  currentTime :: rat
  lastUpdate :: int
  audioTrack :: jsval
  subtitleTrack :: jsval
  playbackRate :: rat

record track =
  track_index :: int
  track_language :: string
  track_title :: string

record tracks =
  audio :: "track list"
  subtitles :: "track list"

record playlist_item =
  filename :: string
  isExternal :: bool
  item_tracks :: tracks
  selectedAudioTrack :: jsval
  selectedSubtitleTrack :: jsval
  usesHEVC :: bool

record playlist =
  videos :: "playlist_item list"
  currentIndex :: int
  mainVideoIndex :: int
  mainVideoStartTime :: rat
  preloadMainVideo :: bool

record client_info =
  fingerprint :: "string option"
  client_name :: string
  connectedAt :: int

record client_file =
  file_name :: string
  file_size :: "int option"
  file_type :: "string option"

record bsl_status =
  clientId :: string
  clientName :: string
  folderSelected :: bool
  files :: "client_file list"
  matchedVideos :: "(string \<times> string) list"

record room =
  code :: string
  name :: string
  isPrivate :: bool
  createdAt :: int
  adminFingerprint :: "string option"
  adminSocketId :: "string option"
  clients :: "(string \<times> client_info) list"
  playlist :: playlist
  videoState :: video_state
  clientBslStatus :: "(string \<times> bsl_status) list"
  clientDriftValues :: "string \<rightharpoonup> (string \<rightharpoonup> int)"

text \<open>The constructor of class \<open>Room\<close>; \<open>now\<close> is the value of \<open>Date.now()\<close>.\<close>

definition Room :: "int \<Rightarrow> string \<Rightarrow> string \<Rightarrow> bool \<Rightarrow> string option \<Rightarrow> room" where
  "Room now c n p fp =
     \<lparr> code = c, name = n, isPrivate = p, createdAt = now,
       adminFingerprint = fp, adminSocketId = None, clients = [],
       playlist = \<lparr> videos = [], currentIndex = -1, mainVideoIndex = -1,
                    mainVideoStartTime = 0, preloadMainVideo = False \<rparr>,
       videoState = \<lparr> isPlaying = True, currentTime = 0, lastUpdate = now,
                      audioTrack = JNum 0, subtitleTrack = JNum (-1), playbackRate = 1 \<rparr>,
       clientBslStatus = [], clientDriftValues = Map.empty \<rparr>"

text \<open>The module-level state of legacy (single-room) mode at boot.\<close>

definition PLAYLIST_init :: playlist where
  "PLAYLIST_init = \<lparr> videos = [], currentIndex = -1, mainVideoIndex = -1,
                      mainVideoStartTime = 0, preloadMainVideo = False \<rparr>"

definition videoState_init :: "int \<Rightarrow> video_state" where
  "videoState_init now = \<lparr> isPlaying = True, currentTime = 0, lastUpdate = now,
                           audioTrack = JNum 0, subtitleTrack = JNum (-1), playbackRate = 1 \<rparr>"

datatype job_failure = Message string | DestructuringError

record ffmpeg_job =
  job_id :: nat
  job_type :: string
  job_filename :: string
  job_status :: string
  job_progress :: nat
  job_startTime :: int
  job_preset :: string
  job_error :: "job_failure option"

record server =
  rooms :: "string \<rightharpoonup> room"
  socketRoomMap :: "string \<rightharpoonup> string"
  PLAYLIST :: playlist
  g_videoState :: video_state
  g_clientBslStatus :: "(string \<times> bsl_status) list"
  g_adminSocketId :: "string option"
  verifiedAdminSockets :: "string set"
  connectedClients :: "(string \<times> client_info) list"
  g_clientDriftValues :: "string \<rightharpoonup> (string \<rightharpoonup> int)"
  persistentBslMatches :: "string \<rightharpoonup> (string \<rightharpoonup> string)"
  ffmpegJobs :: "ffmpeg_job list"
  ffmpegJobCounter :: nat
  csrfTokens :: "string \<rightharpoonup> (string \<times> int)"

definition boot :: "int \<Rightarrow> server" where
  "boot now =
     \<lparr> rooms = Map.empty, socketRoomMap = Map.empty, PLAYLIST = PLAYLIST_init,
       g_videoState = videoState_init now, g_clientBslStatus = [], g_adminSocketId = None,
       verifiedAdminSockets = {}, connectedClients = [], g_clientDriftValues = Map.empty,
       persistentBslMatches = Map.empty, ffmpegJobs = [], ffmpegJobCounter = 0,
       csrfTokens = Map.empty \<rparr>"

section \<open>Outgoing events\<close>

text \<open>An emission is a destination (\<open>io.emit\<close>, \<open>io.to(room).emit\<close>, or one socket), the
  event name and the payload.  The status report for the admin carries the mode, one entry
  per reporting viewer (socket, status, drift values) and one entry per playlist item
  (active, viewers with a match, viewers without).\<close>

datatype target = ToAll | ToRoom string | ToSocket string

datatype payload =
    PSync video_state
  | PPlaylist playlist
  | PAdminError string string
  | PMessage string
  | PRateLimit string nat
  | PDriftValues "string \<rightharpoonup> int"
  | PMatchResult "(string \<times> string) list" nat nat
  | PBslStatus string "(string \<times> bsl_status \<times> (string \<rightharpoonup> int)) list"
               "(bool \<times> nat \<times> nat) list"
  | PPlaylistSet bool string
  | PRoomCreated string string
  | PPublicRooms

type_synonym emit = "target \<times> string \<times> payload"

section \<open>Clock\<close>

text \<open>
  \<open>consolidateTime\<close> (the server's helper): \<open>state.playbackRate || 1.0\<close> is the rate,
  with 1 for a rate of 0.
\<close>

definition consolidateTime :: "int \<Rightarrow> video_state \<Rightarrow> video_state" where
  "consolidateTime now s =
     (if isPlaying s then
        let s1 = (if lastUpdate s > now then s\<lparr>lastUpdate := now\<rparr> else s);
            elapsed = of_int (now - lastUpdate s1) / 1000;
            s2 = (if elapsed > 0
                  then s1\<lparr>currentTime := currentTime s1
                         + elapsed * (if playbackRate s1 = 0 then 1 else playbackRate s1)\<rparr>
                  else s1)
        in s2\<lparr>lastUpdate := now\<rparr>
      else s\<lparr>lastUpdate := now\<rparr>)"

text \<open>
  \<open>consolidate\<close> as the specification words it: if playing, the position grows by the rate
  times the elapsed time, never negative; the anchor becomes the wall clock.
\<close>

definition spec_consolidate :: "int \<Rightarrow> video_state \<Rightarrow> video_state" where
  "spec_consolidate now s =
     (if isPlaying s
      then s\<lparr>currentTime := currentTime s
                + playbackRate s * max 0 (of_int (now - lastUpdate s) / 1000),
             lastUpdate := now\<rparr>
      else s\<lparr>lastUpdate := now\<rparr>)"

text \<open>
  The body of the 5-second interval \<open>syncInterval\<close>, which is written twice in the source
  (once per room, once for the legacy state).
\<close>

definition syncInterval_state :: "int \<Rightarrow> video_state \<Rightarrow> video_state" where
  "syncInterval_state now s =
     (if isPlaying s
      then s\<lparr>currentTime := currentTime s + of_int (now - lastUpdate s) / 1000,
             lastUpdate := now\<rparr>
      else s)"

definition syncInterval :: "config \<Rightarrow> int \<Rightarrow> server \<Rightarrow> server \<times> emit list" where
  "syncInterval cfg now st =
     (if SERVER_MODE cfg
      then (st\<lparr>rooms := (\<lambda>c. map_option
                    (\<lambda>r. r\<lparr>videoState := syncInterval_state now (videoState r)\<rparr>)
                    (rooms st c))\<rparr>, [])
      else (st\<lparr>g_videoState := syncInterval_state now (g_videoState st)\<rparr>, []))"

section \<open>Rooms and the admin gate\<close>

definition getRoom :: "server \<Rightarrow> string \<Rightarrow> room option" where
  "getRoom st c = rooms st (toUpperCase c)"

text \<open>A handler of server mode finds the room of the sending socket: no entry in
  \<open>socketRoomMap\<close>, an empty code or an unknown code end the handler.\<close>

definition room_of_socket :: "server \<Rightarrow> string \<Rightarrow> (string \<times> room) option" where
  "room_of_socket st sid =
     (case socketRoomMap st sid of
        None \<Rightarrow> None
      | Some rc \<Rightarrow> if rc = [] then None
                   else (case getRoom st rc of None \<Rightarrow> None | Some r \<Rightarrow> Some (rc, r)))"

text \<open>Handlers mutate the room object that \<open>getRoom\<close> returned.\<close>

definition put_room :: "string \<Rightarrow> room \<Rightarrow> server \<Rightarrow> server" where
  "put_room rc r st = st\<lparr>rooms := (rooms st)(toUpperCase rc \<mapsto> r)\<rparr>"

definition ADMIN_ONLY_EVENTS :: "string list" where
  "ADMIN_ONLY_EVENTS =
     [''set-playlist'', ''playlist-reorder'', ''playlist-jump'', ''track-change'',
      ''skip-to-next-video'', ''bsl-admin-register'', ''bsl-check-request'',
      ''bsl-get-status'', ''bsl-manual-match'', ''bsl-set-drift'', ''set-client-name'',
      ''get-client-list'', ''set-client-display-name'', ''delete-room'', ''create-room'']"

definition isSocketAdmin :: "config \<Rightarrow> server \<Rightarrow> string \<Rightarrow> bool" where
  "isSocketAdmin cfg st sid =
     (if SERVER_MODE cfg
      then (case socketRoomMap st sid of
              None \<Rightarrow> False
            | Some rc \<Rightarrow> if rc = [] then False
                         else (case getRoom st rc of
                                 None \<Rightarrow> False
                               | Some r \<Rightarrow> adminSocketId r = Some sid))
      else if \<not> ADMIN_FINGERPRINT_LOCK cfg then True
      else sid \<in> verifiedAdminSockets st)"

text \<open>The authorization middleware installed with \<open>socket.use\<close>: it either calls \<open>next()\<close>
  or answers \<open>admin-error\<close> to the sender and drops the packet.\<close>

datatype gate = Next | Blocked "emit list"

definition admin_middleware :: "config \<Rightarrow> server \<Rightarrow> string \<Rightarrow> string \<Rightarrow> gate" where
  "admin_middleware cfg st sid eventName =
     (if eventName \<in> set ADMIN_ONLY_EVENTS
      then (if eventName = ''create-room'' \<or> eventName = ''bsl-admin-register'' then Next
            else if \<not> isSocketAdmin cfg st sid
            then Blocked [(ToSocket sid, ''admin-error'',
                           PAdminError eventName ''Unauthorized: Admin access required'')]
            else Next)
      else Next)"

text \<open>The middleware installed before it limits the rate of packets per address.  The
  limiter is a library: whether it rejects the packet (and for how many milliseconds) is a
  parameter, \<open>None\<close> when the packet is within the limit.\<close>

definition isLocalhostSocket :: "string \<Rightarrow> bool" where
  "isLocalhostSocket clientIp =
     (clientIp = ''127.0.0.1'' \<or> clientIp = ''::1'' \<or> clientIp = ''::ffff:127.0.0.1'')"

definition rate_limit_middleware :: "string \<Rightarrow> nat option \<Rightarrow> string \<Rightarrow> gate" where
  "rate_limit_middleware clientIp rejected sid =
     (if isLocalhostSocket clientIp then Next
      else (case rejected of
              None \<Rightarrow> Next
            | Some msBeforeNext \<Rightarrow>
                Blocked [(ToSocket sid, ''rate-limit-error'',
                          PRateLimit ''Too many requests, please slow down''
                            ((msBeforeNext + 999) div 1000))]))"

text \<open>A packet reaches the handler registered for its event only through the two
  middlewares; \<open>on\<close> stands for the handlers registered with \<open>socket.on\<close>, whatever they
  are.\<close>

definition receive_packet ::
  "(string \<Rightarrow> 'd \<Rightarrow> server \<Rightarrow> server \<times> emit list) \<Rightarrow> string \<Rightarrow> nat option \<Rightarrow> config \<Rightarrow> server
     \<Rightarrow> string \<Rightarrow> string \<Rightarrow> 'd \<Rightarrow> server \<times> emit list" where
  "receive_packet on clientIp rejected cfg st sid eventName d =
     (case rate_limit_middleware clientIp rejected sid of
        Blocked out \<Rightarrow> (st, out)
      | Next \<Rightarrow>
          (case admin_middleware cfg st sid eventName of
             Blocked out \<Rightarrow> (st, out)
           | Next \<Rightarrow> on eventName d st))"

section \<open>The create-room event\<close>

text \<open>\<open>generateRoomCode\<close> draws codes at random until one is free.  The codes that the
  successive draws give are a parameter; \<open>None\<close> stands for draws that never give a free
  code.\<close>

fun generateRoomCode :: "string list \<Rightarrow> (string \<rightharpoonup> room) \<Rightarrow> string option" where
  "generateRoomCode [] rs = None"
| "generateRoomCode (c # cs) rs = (if rs c \<noteq> None then generateRoomCode cs rs else Some c)"

definition addClient :: "int \<Rightarrow> string \<Rightarrow> string option \<Rightarrow> string option \<Rightarrow> room \<Rightarrow> room" where
  "addClient now socketId fp nm r =
     r\<lparr>clients := AList.update socketId
          \<lparr> fingerprint = fp,
            client_name = (case nm of
                             Some n \<Rightarrow> if n \<noteq> [] then n
                                       else ''Guest-'' @ drop (length socketId - 4) socketId
                           | None \<Rightarrow> ''Guest-'' @ drop (length socketId - 4) socketId),
            connectedAt = now \<rparr>
          (clients r)\<rparr>"

record create_room_data =
  cr_name :: "string option"
  cr_isPrivate :: jsval
  cr_fingerprint :: "string option"
  cr_callback :: bool

text \<open>The handler exists in server mode only.  It creates the room, makes the sender its
  admin socket and first client, and answers through the callback, if the client gave one;
  the list of public rooms that \<open>rooms-updated\<close> carries is left out.\<close>

definition create_room ::
  "config \<Rightarrow> int \<Rightarrow> string list \<Rightarrow> string \<Rightarrow> create_room_data \<Rightarrow> server
     \<Rightarrow> (server \<times> emit list) option" where
  "create_room cfg now draws sid d st =
     (if \<not> SERVER_MODE cfg then Some (st, [])
      else (case generateRoomCode draws (rooms st) of
              None \<Rightarrow> None
            | Some c \<Rightarrow>
                (let roomName = (case cr_name d of
                                   Some n \<Rightarrow> if n \<noteq> [] then n else ''Watch Party''
                                 | None \<Rightarrow> ''Watch Party'');
                     room = addClient now sid (cr_fingerprint d) (Some ''Admin'')
                              ((Room now c roomName (cr_isPrivate d = JBool True) (cr_fingerprint d))
                                 \<lparr>adminSocketId := Some sid\<rparr>)
                 in Some (st\<lparr>rooms := (rooms st)(c \<mapsto> room),
                              socketRoomMap := (socketRoomMap st)(sid \<mapsto> c)\<rparr>,
                          (if cr_callback d
                           then [(ToSocket sid, ''create-room'', PRoomCreated c roomName)] else [])
                          @ [(ToAll, ''rooms-updated'', PPublicRooms)]))))"

section \<open>The control event\<close>

record control_data =
  c_action :: jsval
  c_state :: bool
  c_direction :: jsval
  c_seconds :: "rat option"
  c_time :: jsval
  c_type :: jsval
  c_trackIndex :: jsval
  c_rate :: rat
  c_isPlaying :: bool
  c_currentTime :: jsval

text \<open>The chain of branches on \<open>data.action\<close>, the same in both modes.  The result is the
  new playback state and whether \<open>sync\<close> is emitted (an unknown action does nothing).
  \<open>None\<close> marks a payload outside the typed model: the branch would store a position that
  is not a number, which the validation before it excludes for \<open>seek\<close>.\<close>

definition control_action ::
  "config \<Rightarrow> int \<Rightarrow> control_data \<Rightarrow> video_state \<Rightarrow> (video_state \<times> bool) option" where
  "control_action cfg now d s =
     (if c_action d = JStr ''playpause''
      then Some ((consolidateTime now s)\<lparr>isPlaying := c_state d\<rparr>, True)
      else if c_action d = JStr ''skip''
      then (let s1 = consolidateTime now s;
                direction = (if c_direction d = JStr ''forward'' then 1 else -1);
                secs = (case c_seconds d of None \<Rightarrow> SKIP_SECONDS cfg
                        | Some x \<Rightarrow> if x = 0 then SKIP_SECONDS cfg else x)
            in Some (s1\<lparr>currentTime := max 0 (currentTime s1 + direction * secs)\<rparr>, True))
      else if c_action d = JStr ''seek''
      then (case c_time d of
              JNum t \<Rightarrow> Some (s\<lparr>currentTime := t, lastUpdate := now\<rparr>, True)
            | _ \<Rightarrow> None)
      else if c_action d = JStr ''selectTrack''
      then (let s1 = consolidateTime now s;
                s2 = (if c_type d = JStr ''audio'' then s1\<lparr>audioTrack := c_trackIndex d\<rparr>
                      else if c_type d = JStr ''subtitle''
                      then s1\<lparr>subtitleTrack := c_trackIndex d\<rparr>
                      else s1)
            in Some (s2, True))
      else if c_action d = JStr ''rate''
      then Some ((consolidateTime now s)\<lparr>playbackRate := c_rate d\<rparr>, True)
      else Some (s, False))"

text \<open>A control event without an action is a full state push from a client.\<close>

definition direct_sync :: "int \<Rightarrow> control_data \<Rightarrow> video_state \<Rightarrow> video_state option" where
  "direct_sync now d s =
     (case c_currentTime d of
        JNum t \<Rightarrow> Some \<lparr> isPlaying = c_isPlaying d, currentTime = t, lastUpdate = now,
                         audioTrack = audioTrack s, subtitleTrack = subtitleTrack s,
                         playbackRate = playbackRate s \<rparr>
      | _ \<Rightarrow> None)"

definition control_state ::
  "config \<Rightarrow> int \<Rightarrow> control_data \<Rightarrow> video_state \<Rightarrow> (video_state \<times> bool) option" where
  "control_state cfg now d s =
     (if truthy (c_action d) then control_action cfg now d s
      else map_option (\<lambda>s'. (s', True)) (direct_sync now d s))"

definition control_server ::
  "config \<Rightarrow> int \<Rightarrow> string \<Rightarrow> control_data \<Rightarrow> server \<Rightarrow> (server \<times> emit list) option" where
  "control_server cfg now sid d st =
     (case room_of_socket st sid of
        None \<Rightarrow> Some (st, [])
      | Some (rc, r) \<Rightarrow>
          if CLIENT_CONTROLS_DISABLED cfg \<and> adminSocketId r \<noteq> Some sid then Some (st, [])
          else (case control_state cfg now d (videoState r) of
                  None \<Rightarrow> None
                | Some (s', out) \<Rightarrow>
                    Some (put_room rc (r\<lparr>videoState := s'\<rparr>) st,
                          if out then [(ToRoom rc, ''sync'', PSync s')] else [])))"

definition control_legacy ::
  "config \<Rightarrow> int \<Rightarrow> string \<Rightarrow> control_data \<Rightarrow> server \<Rightarrow> (server \<times> emit list) option" where
  "control_legacy cfg now sid d st =
     (if CLIENT_CONTROLS_DISABLED cfg \<and> sid \<notin> verifiedAdminSockets st
      then Some (st, [(ToSocket sid, ''control-rejected'',
                       PMessage ''Controls are disabled. Only admin can control playback.'')])
      else if CLIENT_SYNC_DISABLED cfg \<and> \<not> truthy (c_action d) then Some (st, [])
      else (case control_state cfg now d (g_videoState st) of
              None \<Rightarrow> None
            | Some (s', out) \<Rightarrow>
                Some (st\<lparr>g_videoState := s'\<rparr>,
                      if out then [(ToAll, ''sync'', PSync s')] else [])))"

text \<open>The handler of \<open>control\<close>; \<open>data\<close> is \<open>None\<close> when the payload is not an object.\<close>

definition control ::
  "config \<Rightarrow> int \<Rightarrow> string \<Rightarrow> control_data option \<Rightarrow> server \<Rightarrow> (server \<times> emit list) option" where
  "control cfg now sid data st =
     (case data of
        None \<Rightarrow> Some (st, [])
      | Some d \<Rightarrow>
          if c_currentTime d \<noteq> JUndefined \<and> \<not> validateCurrentTime (c_currentTime d)
          then Some (st, [])
          else if c_action d = JStr ''seek'' \<and> \<not> validateCurrentTime (c_time d)
          then Some (st, [])
          else if c_action d = JStr ''selectTrack'' \<and> \<not> validateTrackIndex (c_trackIndex d)
          then Some (st, [])
          else if SERVER_MODE cfg then control_server cfg now sid d st
          else control_legacy cfg now sid d st)"

subsection \<open>The speed buttons of the admin page\<close>



section \<open>The set-playlist event\<close>

record set_playlist_data =
  sp_playlist :: "playlist_item list"
  sp_mainVideoIndex :: int
  sp_startTime :: rat

text \<open>\<open>getTracksForFile\<close> belongs to the metadata adapter and is a parameter; \<open>None\<close> is
  a failed probe, answered with empty track lists.\<close>

definition process_item :: "(string \<Rightarrow> tracks option) \<Rightarrow> playlist_item \<Rightarrow> playlist_item" where
  "process_item getTracksForFile item =
     item\<lparr> item_tracks :=
             (if \<not> isExternal item
              then (case getTracksForFile (filename item) of
                      Some t \<Rightarrow> t | None \<Rightarrow> \<lparr> audio = [], subtitles = [] \<rparr>)
              else \<lparr> audio = [], subtitles = [] \<rparr>),
           usesHEVC := endsWith (filename item) ''.mkv'' \<rparr>"

definition initial_track :: "jsval \<Rightarrow> rat \<Rightarrow> jsval" where
  \<comment> \<open>\<open>v !== undefined ? v : d\<close>\<close>
  "initial_track v d = (if v \<noteq> JUndefined then v else JNum d)"

text \<open>What the handler writes into the target playlist and playback state, up to the
  second emission: the playlist as sent with \<open>playlist-update\<close> and the state as sent with
  \<open>sync\<close>.\<close>

definition set_playlist_state ::
  "(string \<Rightarrow> tracks option) \<Rightarrow> config \<Rightarrow> int \<Rightarrow> set_playlist_data \<Rightarrow> playlist \<times> video_state
     \<Rightarrow> playlist \<times> video_state" where
  "set_playlist_state getTracksForFile cfg now d ps =
     (let processedPlaylist = map (process_item getTracksForFile) (sp_playlist d);
          pl = (fst ps)\<lparr> videos := processedPlaylist,
                         mainVideoIndex := sp_mainVideoIndex d,
                         mainVideoStartTime := sp_startTime d,
                         currentIndex := 0,
                         preloadMainVideo := True \<rparr>;
          s1 = (case processedPlaylist of
                  [] \<Rightarrow> snd ps
                | firstVideo # _ \<Rightarrow>
                    (snd ps)\<lparr> audioTrack := initial_track (selectedAudioTrack firstVideo) 0,
                              subtitleTrack :=
                                initial_track (selectedSubtitleTrack firstVideo) (-1) \<rparr>);
          s2 = s1\<lparr> currentTime := (if sp_startTime d = 0 then 0 else sp_startTime d),
                   lastUpdate := now \<rparr>
      in (pl, s2\<lparr> isPlaying := VIDEO_AUTOPLAY cfg \<rparr>))"

definition playlist_set_message :: "config \<Rightarrow> string" where
  "playlist_set_message cfg =
     (if VIDEO_AUTOPLAY cfg then ''Playlist launched - playing!''
      else ''Playlist launched - paused (autoplay disabled)'')"

definition set_playlist ::
  "(string \<Rightarrow> tracks option) \<Rightarrow> config \<Rightarrow> int \<Rightarrow> string \<Rightarrow> set_playlist_data \<Rightarrow> server
     \<Rightarrow> server \<times> emit list" where
  "set_playlist getTracksForFile cfg now sid d st =
     (if SERVER_MODE cfg
      then (case room_of_socket st sid of
              None \<Rightarrow> (st, [])
            | Some (rc, r) \<Rightarrow>
                if adminSocketId r \<noteq> Some sid
                then (st, [(ToSocket sid, ''playlist-set'',
                            PPlaylistSet False ''Only admins can set the playlist'')])
                else (let (pl, s) = set_playlist_state getTracksForFile cfg now d
                                      (playlist r, videoState r)
                      in (put_room rc (r\<lparr>playlist := pl, videoState := s\<rparr>) st,
                          [(ToRoom rc, ''playlist-update'', PPlaylist pl),
                           (ToRoom rc, ''sync'', PSync s),
                           (ToSocket sid, ''playlist-set'',
                            PPlaylistSet True (playlist_set_message cfg))])))
      else (let (pl, s) = set_playlist_state getTracksForFile cfg now d
                            (PLAYLIST st, g_videoState st)
            in (st\<lparr>PLAYLIST := pl, g_videoState := s\<rparr>,
                [(ToAll, ''playlist-update'', PPlaylist pl),
                 (ToAll, ''sync'', PSync s),
                 (ToSocket sid, ''playlist-set'',
                  PPlaylistSet True (playlist_set_message cfg))])))"

text \<open>The invariant of the playlist as the specification states it.\<close>

definition playlist_invariant :: "playlist \<Rightarrow> bool" where
  "playlist_invariant pl =
     (-1 \<le> currentIndex pl \<and> currentIndex pl < int (length (videos pl)) \<and>
      -1 \<le> mainVideoIndex pl \<and> mainVideoIndex pl < int (length (videos pl)))"

text \<open>Half a second after a launch without autoplay the handler's timer pauses again and
  repeats the \<open>sync\<close>.\<close>

definition set_playlist_timeout :: "config \<Rightarrow> video_state \<Rightarrow> video_state \<times> bool" where
  "set_playlist_timeout cfg s =
     (if \<not> VIDEO_AUTOPLAY cfg then (s\<lparr>isPlaying := False\<rparr>, True) else (s, False))"

section \<open>HTTP: the CSRF check and the media-tool routes\<close>

record http_request =
  req_method :: string
  cookie_sync_session :: "string option"
  header_x_csrf_token :: "string option"
  body_csrf :: "string option"
  body_password :: "string option"
  body_type :: string
  body_filename :: "string option"
  body_preset :: string
  body_options :: jsval
  body_jobId :: jsval

datatype http_body = BError string | BJob nat | BSuccess

datatype 'a handled = CallNext | Respond 'a

definition nonempty :: "string option \<Rightarrow> bool" where
  \<comment> \<open>a string that JavaScript takes for true\<close>
  "nonempty x = (case x of None \<Rightarrow> False | Some s \<Rightarrow> s \<noteq> [])"

definition validateCsrfToken :: "int \<Rightarrow> server \<Rightarrow> string \<Rightarrow> string \<Rightarrow> bool" where
  "validateCsrfToken now st sessionId token =
     (case csrfTokens st sessionId of
        None \<Rightarrow> False
      | Some (stored_token, expires) \<Rightarrow> if expires < now then False else stored_token = token)"

definition request_token :: "http_request \<Rightarrow> string option" where
  \<comment> \<open>\<open>req.headers['x-csrf-token'] || req.body?._csrf\<close>\<close>
  "request_token req =
     (if nonempty (header_x_csrf_token req) then header_x_csrf_token req else body_csrf req)"

definition csrfProtection :: "int \<Rightarrow> server \<Rightarrow> http_request \<Rightarrow> (nat \<times> http_body) handled" where
  "csrfProtection now st req =
     (if req_method req \<in> set [''GET'', ''HEAD'', ''OPTIONS''] then CallNext
      else (case (cookie_sync_session req, request_token req) of
              (Some sessionId, Some token) \<Rightarrow>
                if sessionId = [] \<or> token = [] \<or> \<not> validateCsrfToken now st sessionId token
                then Respond (403, BError ''CSRF token validation failed'')
                else CallNext
            | _ \<Rightarrow> Respond (403, BError ''CSRF token validation failed'')))"

text \<open>The password gate of the media-tool routes; the SHA-256 digest is a parameter.\<close>

definition verifyFfmpegAuth ::
  "(string \<Rightarrow> string) \<Rightarrow> config \<Rightarrow> http_request \<Rightarrow> (nat \<times> http_body) handled" where
  "verifyFfmpegAuth sha256 cfg req =
     (case FFMPEG_TOOLS_PASSWORD_HASH cfg of
        None \<Rightarrow> Respond (403, BError ''FFmpeg tools are disabled (no password set)'')
      | Some h \<Rightarrow>
          (case body_password req of
             None \<Rightarrow> Respond (401, BError ''Password required'')
           | Some pw \<Rightarrow>
               if pw = [] then Respond (401, BError ''Password required'')
               else if sha256 pw \<noteq> h then Respond (401, BError ''Invalid password'')
               else CallNext))"

text \<open>The classes of the optional library \<open>node-av\<close>: which of them the server could
  load when it started.\<close>

record node_av =
  Demuxer :: bool
  Muxer :: bool
  Decoder :: bool
  Encoder :: bool

text \<open>\<open>runFfmpegJob\<close> up to its first \<open>await\<close>, which is what has run when the route
  answers.  The first job with the given id is marked running; it is marked failed at once
  when the library is missing, when a re-encoding or an extraction comes without options
  (the destructuring throws), or when the type is none of the three.  The first \<open>await\<close>
  waits for the library to open the input file; what the job does from there on is not
  modelled.\<close>

definition runFfmpegJob_start ::
  "node_av \<Rightarrow> int \<Rightarrow> string \<Rightarrow> jsval \<Rightarrow> ffmpeg_job \<Rightarrow> ffmpeg_job" where
  "runFfmpegJob_start av now type options job =
     (let running = job\<lparr>job_status := ''running'', job_startTime := now\<rparr>;
          failed = (\<lambda>e. running\<lparr>job_status := ''failed'', job_error := Some e\<rparr>)
      in if type = ''remux''
         then (if \<not> Demuxer av \<or> \<not> Muxer av then failed (Message ''node-av not available'')
               else running)
         else if type = ''reencode''
         then (if options = JUndefined \<or> options = JNull then failed DestructuringError
               else if \<not> Demuxer av \<or> \<not> Muxer av \<or> \<not> Decoder av \<or> \<not> Encoder av
               then failed (Message ''node-av not fully loaded'')
               else running)
         else if type = ''extract''
         then (if options = JUndefined \<or> options = JNull then failed DestructuringError
               else if \<not> Demuxer av \<or> \<not> Muxer av
               then failed (Message ''node-av not fully loaded'')
               else running)
         else failed (Message ''Job type not implemented yet''))"

fun runFfmpegJob :: "node_av \<Rightarrow> int \<Rightarrow> nat \<Rightarrow> string \<Rightarrow> jsval \<Rightarrow> ffmpeg_job list \<Rightarrow> ffmpeg_job list" where
  "runFfmpegJob av now jobId type options [] = []"
| "runFfmpegJob av now jobId type options (j # js) =
     (if job_id j = jobId then runFfmpegJob_start av now type options j # js
      else j # runFfmpegJob av now jobId type options js)"

text \<open>\<open>app.post('/api/ffmpeg/run-preset', express.json(), verifyFfmpegAuth, handler)\<close>: the
  route as the source registers it.\<close>

definition post_run_preset ::
  "(string \<Rightarrow> string) \<Rightarrow> node_av \<Rightarrow> config \<Rightarrow> int \<Rightarrow> http_request \<Rightarrow> server
     \<Rightarrow> server \<times> nat \<times> http_body" where
  "post_run_preset sha256 av cfg now req st =
     (case verifyFfmpegAuth sha256 cfg req of
        Respond r \<Rightarrow> (st, r)
      | CallNext \<Rightarrow>
          (case body_filename req of
             None \<Rightarrow> (st, 400, BError ''Filename required'')
           | Some f \<Rightarrow>
               if f = [] then (st, 400, BError ''Filename required'')
               else (let n = ffmpegJobCounter st + 1;
                         job = \<lparr> job_id = n, job_type = body_type req, job_filename = f,
                                 job_status = ''pending'', job_progress = 0,
                                 job_startTime = now, job_preset = body_preset req,
                                 job_error = None \<rparr>
                     in (st\<lparr>ffmpegJobCounter := n,
                            ffmpegJobs := runFfmpegJob av now n (body_type req) (body_options req)
                                            (ffmpegJobs st @ [job])\<rparr>,
                         200, BJob n))))"

text \<open>\<open>app.post('/api/ffmpeg/cancel', express.json(), verifyFfmpegAuth, handler)\<close>: the first
  job with the given id is cancelled if it is running.\<close>

fun cancel_job :: "int \<Rightarrow> ffmpeg_job list \<Rightarrow> ffmpeg_job list option" where
  "cancel_job i [] = None"
| "cancel_job i (j # js) =
     (if int (job_id j) = i
      then (if job_status j = ''running'' then Some (j\<lparr>job_status := ''cancelled''\<rparr> # js)
            else None)
      else map_option ((#) j) (cancel_job i js))"

definition post_cancel ::
  "(string \<Rightarrow> string) \<Rightarrow> config \<Rightarrow> http_request \<Rightarrow> server \<Rightarrow> server \<times> nat \<times> http_body" where
  "post_cancel sha256 cfg req st =
     (case verifyFfmpegAuth sha256 cfg req of
        Respond r \<Rightarrow> (st, r)
      | CallNext \<Rightarrow>
          (case parseInt (body_jobId req) of
             None \<Rightarrow> (st, 404, BError ''Job not found or not running'')
           | Some i \<Rightarrow>
               (case cancel_job i (ffmpegJobs st) of
                  None \<Rightarrow> (st, 404, BError ''Job not found or not running'')
                | Some js \<Rightarrow> (st\<lparr>ffmpegJobs := js\<rparr>, 200, BSuccess))))"

section \<open>Local-file matching (BSL)\<close>

text \<open>
  The match memory \<open>persistentBslMatches\<close>, each of its tables and \<open>mimeMap\<close> are plain
  objects, and the handlers index them with strings that clients choose: a client id, a file
  name in lower case, the extension of a playlist item.  A lookup that finds no own property
  goes on in \<open>Object.prototype\<close>: under the names below it finds a built-in method or,
  under \<open>__proto__\<close>, the prototype object itself.

  The handlers are modelled for a server whose built-in objects are as they were at start.
  A handler that executes an assignment to a property of one of them ends there, with a
  fault that names the assignment: after a write into \<open>Object.prototype\<close> every object of
  the process inherits the new property, and what the server does from there on is outside
  this model.  A handler that throws ends with the fault \<open>TypeError\<close>.
\<close>

definition Object_prototype_names :: "string list" where
  "Object_prototype_names =
     [''constructor'', ''__defineGetter__'', ''__defineSetter__'', ''hasOwnProperty'',
      ''__lookupGetter__'', ''__lookupSetter__'', ''isPrototypeOf'', ''propertyIsEnumerable'',
      ''toString'', ''valueOf'', ''__proto__'', ''toLocaleString'']"

datatype fault =
    TypeError
  | PrototypeWrite string string
  | MethodWrite string string string

definition mimeMap :: "(string \<times> string) list" where
  "mimeMap =
     [(''.mp4'', ''video/mp4''), (''.mkv'', ''video/x-matroska''), (''.webm'', ''video/webm''),
      (''.avi'', ''video/x-msvideo''), (''.mov'', ''video/quicktime''),
      (''.wmv'', ''video/x-ms-wmv''), (''.mp3'', ''audio/mpeg''), (''.png'', ''image/png''),
      (''.jpg'', ''image/jpeg''), (''.jpeg'', ''image/jpeg''), (''.webp'', ''image/webp'')]"

definition SIZE_TOLERANCE :: rat where
  "SIZE_TOLERANCE = 15 / 10 * 1024 * 1024"

text \<open>The extension of a playlist item as the score compares it: from the last dot on, in
  lower case; the whole name when it has no dot.\<close>

definition serverExt :: "playlist_item \<Rightarrow> string" where
  "serverExt playlistVideo = toLowerCase (substring_lastIndexOf_dot (filename playlistVideo))"

text \<open>The fourth criterion, for a client file with a type: \<open>expectedMime\<close> is
  \<open>mimeMap[serverExt] || ''\<close>, and the type has to equal it or to start with its part
  before the slash.  For an extension that \<open>mimeMap\<close> does not list, \<open>expectedMime\<close> is the
  empty string, with which every type starts; unless the extension names a property of
  \<open>Object.prototype\<close>: then \<open>expectedMime\<close> is a function (or the prototype), which has
  no \<open>split\<close>, and the call throws.\<close>

definition mime_matches :: "string \<Rightarrow> string \<Rightarrow> fault + bool" where
  "mime_matches ty ext =
     (case map_of mimeMap ext of
        Some expectedMime \<Rightarrow>
          Inr (ty = expectedMime \<or> startsWith ty (takeWhile (\<lambda>c. c \<noteq> CHR ''/'') expectedMime))
      | None \<Rightarrow>
          if ext \<in> set Object_prototype_names then Inl TypeError
          else Inr (ty = [] \<or> startsWith ty []))"

text \<open>The four criteria of the advanced match.  \<open>statSize\<close> is the size of the server's
  file (\<open>fs.statSync\<close>), \<open>None\<close> when the file cannot be read.\<close>

definition matchScore ::
  "(string \<Rightarrow> int option) \<Rightarrow> client_file \<Rightarrow> playlist_item \<Rightarrow> fault + nat" where
  "matchScore statSize clientFile playlistVideo =
     (let clientBasename = toLowerCase (file_name clientFile);
          serverBasename = toLowerCase (filename playlistVideo);
          clientExt = toLowerCase (substring_lastIndexOf_dot (file_name clientFile));
          three = (if clientBasename = serverBasename then 1 else 0)
                + (if clientExt = serverExt playlistVideo then 1 else 0)
                + (case file_size clientFile of
                     None \<Rightarrow> 0
                   | Some sz \<Rightarrow>
                       (case statSize (filename playlistVideo) of
                          None \<Rightarrow> 0
                        | Some ssz \<Rightarrow> if of_int \<bar>sz - ssz\<bar> \<le> SIZE_TOLERANCE then 1 else 0))
      in (case file_type clientFile of
            None \<Rightarrow> Inr three
          | Some ty \<Rightarrow>
              if ty = [] then Inr three
              else (case mime_matches ty (serverExt playlistVideo) of
                      Inl e \<Rightarrow> Inl e
                    | Inr b \<Rightarrow> Inr (three + (if b then 1 else 0)))))"

text \<open>The table of remembered matches of a client id, \<open>persistentBslMatches[clientId] || {}\<close>:
  the client's own table; without one, an empty table, unless the id names a property of
  \<open>Object.prototype\<close>.  Under \<open>__proto__\<close> the table is then \<open>Object.prototype\<close> itself,
  none of whose properties is a string, so that as a table it is empty; under another
  name it is a built-in method.  A key without own entry in a table finds at most
  a built-in method, never the string it is compared with.

  A built-in method has one property that is a string, its \<open>name\<close>, which has a capital
  letter and so differs from every file name in lower case; and reading its properties
  \<open>caller\<close> and \<open>arguments\<close> throws.\<close>

datatype match_table = Table "string \<rightharpoonup> string" | BuiltinMethod string

definition clientMatches_of :: "server \<Rightarrow> string \<Rightarrow> match_table" where
  "clientMatches_of st cid =
     (case persistentBslMatches st cid of
        Some m \<Rightarrow> Table m
      | None \<Rightarrow> if cid \<in> set Object_prototype_names \<and> cid \<noteq> ''__proto__''
                then BuiltinMethod cid else Table Map.empty)"

text \<open>The decision for one client file and one playlist item, in the order of the source:
  a remembered match first, then the score or the plain comparison of names.\<close>

definition persistent_match :: "match_table \<Rightarrow> client_file \<Rightarrow> playlist_item \<Rightarrow> fault + bool" where
  "persistent_match clientMatches clientFile playlistVideo =
     (case clientMatches of
        Table m \<Rightarrow> Inr (m (toLowerCase (file_name clientFile))
                         = Some (toLowerCase (filename playlistVideo)))
      | BuiltinMethod cid \<Rightarrow>
          if toLowerCase (file_name clientFile) \<in> set [''caller'', ''arguments'']
          then Inl TypeError else Inr False)"

definition file_matches ::
  "config \<Rightarrow> (string \<Rightarrow> int option) \<Rightarrow> match_table \<Rightarrow> client_file \<Rightarrow> playlist_item
     \<Rightarrow> fault + bool" where
  "file_matches cfg statSize clientMatches clientFile playlistVideo =
     (case persistent_match clientMatches clientFile playlistVideo of
        Inl e \<Rightarrow> Inl e
      | Inr remembered \<Rightarrow>
          if remembered then Inr True
          else if BSL_ADVANCED_MATCH cfg
          then (case matchScore statSize clientFile playlistVideo of
                  Inl e \<Rightarrow> Inl e
                | Inr score \<Rightarrow> Inr (score \<ge> BSL_ADVANCED_MATCH_THRESHOLD cfg))
          else Inr (toLowerCase (file_name clientFile) = toLowerCase (filename playlistVideo)))"

text \<open>The two nested \<open>forEach\<close> loops: every client file against every playlist item, a
  later file overwriting the entry of an earlier one; a fault ends the loops.\<close>

definition match_step ::
  "config \<Rightarrow> (string \<Rightarrow> int option) \<Rightarrow> match_table \<Rightarrow> client_file \<Rightarrow> nat \<times> playlist_item
     \<Rightarrow> fault + (string \<times> string) list \<Rightarrow> fault + (string \<times> string) list" where
  "match_step cfg statSize clientMatches clientFile p acc =
     (case acc of
        Inl e \<Rightarrow> Inl e
      | Inr m \<Rightarrow>
          (case file_matches cfg statSize clientMatches clientFile (snd p) of
             Inl e \<Rightarrow> Inl e
           | Inr b \<Rightarrow> Inr (if b then AList.update (dec_string (fst p)) (file_name clientFile) m
                           else m)))"

definition match_one_file ::
  "config \<Rightarrow> (string \<Rightarrow> int option) \<Rightarrow> match_table \<Rightarrow> playlist_item list \<Rightarrow> client_file
     \<Rightarrow> fault + (string \<times> string) list \<Rightarrow> fault + (string \<times> string) list" where
  "match_one_file cfg statSize clientMatches vids clientFile acc =
     fold (match_step cfg statSize clientMatches clientFile) (enumerate 0 vids) acc"

definition auto_match ::
  "config \<Rightarrow> (string \<Rightarrow> int option) \<Rightarrow> match_table \<Rightarrow> playlist_item list
     \<Rightarrow> client_file list \<Rightarrow> fault + (string \<times> string) list" where
  "auto_match cfg statSize clientMatches vids fs =
     (if length vids > 0
      then fold (match_one_file cfg statSize clientMatches vids) fs (Inr [])
      else Inr [])"

text \<open>\<open>sendBslStatusToAdmin\<close>: one \<open>bsl-status-update\<close> to the admin socket, if there is
  one.  (The display names of the report are left out.)\<close>

definition has_match :: "bsl_status \<Rightarrow> nat \<Rightarrow> bool" where
  "has_match status i =
     (case map_of (matchedVideos status) (dec_string i) of Some f \<Rightarrow> f \<noteq> [] | None \<Rightarrow> False)"

definition bsl_status_payload ::
  "config \<Rightarrow> (string \<times> bsl_status) list \<Rightarrow> (string \<rightharpoonup> (string \<rightharpoonup> int)) \<Rightarrow> playlist \<Rightarrow> payload" where
  "bsl_status_payload cfg bsl drifts pl =
     PBslStatus (BSL_S2_MODE cfg)
       (map (\<lambda>(socketId, status).
               (socketId, status,
                case drifts (clientId status) of Some dv \<Rightarrow> dv | None \<Rightarrow> Map.empty)) bsl)
       (map (\<lambda>i. let clientsWithMatch = filter (\<lambda>(socketId, status). has_match status i) bsl;
                     clientsWithoutMatch =
                       filter (\<lambda>(socketId, status). \<not> has_match status i \<and> folderSelected status) bsl;
                     totalClients = length bsl;
                     bslActive = (if BSL_S2_MODE cfg = ''all''
                                  then totalClients > 0 \<and> length clientsWithMatch = totalClients
                                  else length clientsWithMatch > 0)
                 in (bslActive, length clientsWithMatch, length clientsWithoutMatch))
            [0..<length (videos pl)])"

definition sendBslStatusToAdmin :: "config \<Rightarrow> server \<Rightarrow> string option \<Rightarrow> emit list" where
  "sendBslStatusToAdmin cfg st roomCode =
     (if SERVER_MODE cfg \<and> nonempty roomCode
      then (case roomCode of
              None \<Rightarrow> []
            | Some rc \<Rightarrow>
               (case getRoom st rc of
                  None \<Rightarrow> []
                | Some r \<Rightarrow>
                   (case adminSocketId r of
                      None \<Rightarrow> []
                    | Some a \<Rightarrow>
                        if a = [] then []
                        else [(ToSocket a, ''bsl-status-update'',
                               bsl_status_payload cfg (clientBslStatus r) (clientDriftValues r)
                                 (playlist r))])))
      else (case g_adminSocketId st of
              None \<Rightarrow> []
            | Some a \<Rightarrow>
                if a = [] then []
                else [(ToSocket a, ''bsl-status-update'',
                       bsl_status_payload cfg (g_clientBslStatus st) (g_clientDriftValues st)
                         (PLAYLIST st))]))"

subsection \<open>bsl-folder-selected\<close>

record folder_data =
  fd_clientId :: "string option"
  fd_clientName :: "string option"
  fd_files :: "client_file list"

definition reporting_id :: "string \<Rightarrow> folder_data \<Rightarrow> string" where
  \<comment> \<open>\<open>data.clientId || socket.id\<close>\<close>
  "reporting_id sid d = (case fd_clientId d of Some c \<Rightarrow> if c \<noteq> [] then c else sid | None \<Rightarrow> sid)"

definition folder_status ::
  "config \<Rightarrow> (string \<Rightarrow> int option) \<Rightarrow> server \<Rightarrow> string \<Rightarrow> folder_data \<Rightarrow> playlist
     \<Rightarrow> fault + bsl_status" where
  "folder_status cfg statSize st sid d pl =
     (let cid = reporting_id sid d
      in (case auto_match cfg statSize (clientMatches_of st cid) (videos pl) (fd_files d) of
            Inl e \<Rightarrow> Inl e
          | Inr matched \<Rightarrow>
              Inr \<lparr> clientId = cid,
                    clientName = (case fd_clientName d of
                                    Some n \<Rightarrow> if n \<noteq> [] then n else drop (length cid - 6) cid
                                  | None \<Rightarrow> drop (length cid - 6) cid),
                    folderSelected = True,
                    files = fd_files d,
                    matchedVideos = matched \<rparr>))"

definition match_result :: "bsl_status \<Rightarrow> playlist \<Rightarrow> payload" where
  "match_result status pl =
     PMatchResult (matchedVideos status) (length (matchedVideos status)) (length (videos pl))"

text \<open>The handler has written nothing when the loops end with a fault.\<close>

definition bsl_folder_selected ::
  "config \<Rightarrow> (string \<Rightarrow> int option) \<Rightarrow> string \<Rightarrow> folder_data \<Rightarrow> server
     \<Rightarrow> fault + (server \<times> emit list)" where
  "bsl_folder_selected cfg statSize sid d st =
     (if SERVER_MODE cfg
      then (case room_of_socket st sid of
              None \<Rightarrow> Inr (st, [])
            | Some (rc, r) \<Rightarrow>
                (case folder_status cfg statSize st sid d (playlist r) of
                   Inl e \<Rightarrow> Inl e
                 | Inr status \<Rightarrow>
                     (let st' = put_room rc
                                  (r\<lparr>clientBslStatus := AList.update sid status (clientBslStatus r)\<rparr>)
                                  st
                      in Inr (st', sendBslStatusToAdmin cfg st' (Some rc)
                                   @ [(ToSocket sid, ''bsl-match-result'',
                                       match_result status (playlist r))]))))
      else (case folder_status cfg statSize st sid d (PLAYLIST st) of
              Inl e \<Rightarrow> Inl e
            | Inr status \<Rightarrow>
                (let st' = st\<lparr>g_clientBslStatus := AList.update sid status (g_clientBslStatus st)\<rparr>
                 in Inr (st', sendBslStatusToAdmin cfg st' None
                              @ [(ToSocket sid, ''bsl-match-result'',
                                  match_result status (PLAYLIST st))]))))"

subsection \<open>bsl-manual-match\<close>

record manual_match_data =
  mm_clientSocketId :: string
  mm_clientFileName :: string
  mm_playlistIndex :: int

definition int_key :: "int \<Rightarrow> string" where
  \<comment> \<open>\<open>String(i)\<close> for an integer\<close>
  "int_key i = (if i < 0 then CHR ''-'' # dec_string (nat (- i)) else dec_string (nat i))"

definition video_at :: "playlist_item list \<Rightarrow> int \<Rightarrow> playlist_item option" where
  \<comment> \<open>\<open>videos[i]\<close>, undefined outside the list\<close>
  "video_at vids i = (if 0 \<le> i \<and> i < int (length vids) then Some (vids ! nat i) else None)"

text \<open>\<open>table[k] = v\<close> on a table of remembered matches: the key \<open>__proto__\<close> reaches the
  setter of \<open>Object.prototype\<close>, which ignores a string, unless the table has an own entry
  of that name (which only a memory file can have given it).\<close>

definition assign :: "(string \<rightharpoonup> string) \<Rightarrow> string \<Rightarrow> string \<Rightarrow> (string \<rightharpoonup> string)" where
  "assign m k v = (if k = ''__proto__'' \<and> m k = None then m else m(k \<mapsto> v))"

text \<open>\<open>setBslMatch\<close>: \<open>if (!persistentBslMatches[clientId]) persistentBslMatches[clientId] = {}\<close>
  and then \<open>persistentBslMatches[clientId][clientFileName] = playlistFileName\<close>.  For a
  client id without own table that names a property of \<open>Object.prototype\<close> the first
  statement finds a built-in object and creates no table, and the second statement is an
  assignment to a property of that object: of \<open>Object.prototype\<close> for the id
  \<open>__proto__\<close> (except under the key \<open>__proto__\<close>, which the setter ignores), of a
  built-in method otherwise.\<close>

definition setBslMatch ::
  "string \<Rightarrow> string \<Rightarrow> string \<Rightarrow> (string \<rightharpoonup> (string \<rightharpoonup> string))
     \<Rightarrow> fault + (string \<rightharpoonup> (string \<rightharpoonup> string))" where
  "setBslMatch cid clientFileName playlistFileName pm =
     (case pm cid of
        Some m \<Rightarrow> Inr (pm(cid \<mapsto> assign m clientFileName playlistFileName))
      | None \<Rightarrow>
          if cid = ''__proto__''
          then (if clientFileName = ''__proto__'' then Inr pm
                else Inl (PrototypeWrite clientFileName playlistFileName))
          else if cid \<in> set Object_prototype_names
          then Inl (MethodWrite cid clientFileName playlistFileName)
          else Inr (pm(cid \<mapsto> assign Map.empty clientFileName playlistFileName)))"

text \<open>The part of the handler that works on the chosen status table and playlist: the new
  table, the new match memory and the new status of the viewer; \<open>None\<close> when the viewer has
  reported no folder.  The entry of the status is written first, whatever the index.\<close>

definition manual_match_update ::
  "manual_match_data \<Rightarrow> (string \<times> bsl_status) list \<Rightarrow> playlist
     \<Rightarrow> (string \<rightharpoonup> (string \<rightharpoonup> string))
     \<Rightarrow> fault + ((string \<times> bsl_status) list \<times> (string \<rightharpoonup> (string \<rightharpoonup> string)) \<times> bsl_status) option" where
  "manual_match_update d bsl pl pm =
     (case map_of bsl (mm_clientSocketId d) of
        None \<Rightarrow> Inr None
      | Some clientStatus \<Rightarrow>
          (let status' = clientStatus\<lparr>matchedVideos :=
                           AList.update (int_key (mm_playlistIndex d)) (mm_clientFileName d)
                             (matchedVideos clientStatus)\<rparr>;
               saved = (case video_at (videos pl) (mm_playlistIndex d) of
                          Some v \<Rightarrow>
                            if clientId clientStatus \<noteq> []
                            then setBslMatch (clientId clientStatus)
                                   (toLowerCase (mm_clientFileName d)) (toLowerCase (filename v)) pm
                            else Inr pm
                        | None \<Rightarrow> Inr pm)
           in (case saved of
                 Inl e \<Rightarrow> Inl e
               | Inr pm' \<Rightarrow> Inr (Some (AList.update (mm_clientSocketId d) status' bsl, pm', status')))))"

definition bsl_manual_match ::
  "config \<Rightarrow> string \<Rightarrow> manual_match_data \<Rightarrow> server \<Rightarrow> fault + (server \<times> emit list)" where
  "bsl_manual_match cfg sid d st =
     (if SERVER_MODE cfg
      then (case room_of_socket st sid of
              None \<Rightarrow> Inr (st, [])
            | Some (rc, r) \<Rightarrow>
                if adminSocketId r \<noteq> Some sid then Inr (st, [])
                else (case manual_match_update d (clientBslStatus r) (playlist r)
                             (persistentBslMatches st) of
                        Inl e \<Rightarrow> Inl e
                      | Inr None \<Rightarrow> Inr (st, [])
                      | Inr (Some (bsl', pm', status')) \<Rightarrow>
                          (let st' = (put_room rc (r\<lparr>clientBslStatus := bsl'\<rparr>) st)
                                        \<lparr>persistentBslMatches := pm'\<rparr>
                           in Inr (st', (ToSocket (mm_clientSocketId d), ''bsl-match-result'',
                                         match_result status' (playlist r))
                                        # sendBslStatusToAdmin cfg st' (Some rc)))))
      else (case manual_match_update d (g_clientBslStatus st) (PLAYLIST st)
                   (persistentBslMatches st) of
              Inl e \<Rightarrow> Inl e
            | Inr None \<Rightarrow> Inr (st, [])
            | Inr (Some (bsl', pm', status')) \<Rightarrow>
                (let st' = st\<lparr>g_clientBslStatus := bsl', persistentBslMatches := pm'\<rparr>
                 in Inr (st', (ToSocket (mm_clientSocketId d), ''bsl-match-result'',
                               match_result status' (PLAYLIST st))
                              # sendBslStatusToAdmin cfg st' None))))"

subsection \<open>bsl-set-drift\<close>

record set_drift_data =
  sd_clientFingerprint :: jsval
  sd_playlistIndex :: jsval
  sd_driftSeconds :: jsval

text \<open>The checks of the payload, in the order of the source, and the value that is stored:
  \<open>Math.max(-60, Math.min(60, parseInt(driftSeconds) || 0))\<close>.\<close>

definition clampedDrift :: "jsval \<Rightarrow> int" where
  "clampedDrift v = max (-60) (min 60 (case parseInt v of None \<Rightarrow> 0 | Some n \<Rightarrow> n))"

definition drift_request :: "set_drift_data \<Rightarrow> (string \<times> string \<times> int) option" where
  "drift_request d =
     (case sd_clientFingerprint d of
        JStr fp \<Rightarrow>
          if fp = [] then None
          else if \<not> isValidInteger (sd_playlistIndex d) \<or> less_than_zero (sd_playlistIndex d)
          then None
          else if \<not> validateDriftSeconds (sd_driftSeconds d) then None
          else Some (fp, property_key (sd_playlistIndex d), clampedDrift (sd_driftSeconds d))
      | _ \<Rightarrow> None)"

definition updated_drifts ::
  "string \<Rightarrow> string \<Rightarrow> int \<Rightarrow> (string \<rightharpoonup> (string \<rightharpoonup> int)) \<Rightarrow> (string \<rightharpoonup> int)" where
  "updated_drifts fp k v tbl =
     (case tbl fp of Some clientDrifts \<Rightarrow> clientDrifts | None \<Rightarrow> Map.empty)(k \<mapsto> v)"

definition store_drift ::
  "string \<Rightarrow> string \<Rightarrow> int \<Rightarrow> (string \<rightharpoonup> (string \<rightharpoonup> int)) \<Rightarrow> (string \<rightharpoonup> (string \<rightharpoonup> int))" where
  "store_drift fp k v tbl = tbl(fp \<mapsto> updated_drifts fp k v tbl)"

definition drift_updates ::
  "(string \<times> client_info) list \<Rightarrow> string \<Rightarrow> (string \<rightharpoonup> int) \<Rightarrow> emit list" where
  "drift_updates cs fp clientDrifts =
     map (\<lambda>(socketId, c). (ToSocket socketId, ''bsl-drift-update'', PDriftValues clientDrifts))
       (filter (\<lambda>(socketId, c). fingerprint c = Some fp) cs)"

definition bsl_set_drift ::
  "config \<Rightarrow> string \<Rightarrow> set_drift_data option \<Rightarrow> server \<Rightarrow> server \<times> emit list" where
  "bsl_set_drift cfg sid data st =
     (case data of
        None \<Rightarrow> (st, [])
      | Some d \<Rightarrow>
          if SERVER_MODE cfg
          then (case room_of_socket st sid of
                  None \<Rightarrow> (st, [])
                | Some (rc, r) \<Rightarrow>
                    if adminSocketId r \<noteq> Some sid then (st, [])
                    else (case drift_request d of
                            None \<Rightarrow> (st, [])
                          | Some (fp, k, v) \<Rightarrow>
                              (let tbl = store_drift fp k v (clientDriftValues r);
                                   st' = put_room rc (r\<lparr>clientDriftValues := tbl\<rparr>) st
                               in (st', drift_updates (clients r) fp
                                          (updated_drifts fp k v (clientDriftValues r))
                                        @ sendBslStatusToAdmin cfg st' (Some rc)))))
          else (case drift_request d of
                  None \<Rightarrow> (st, [])
                | Some (fp, k, v) \<Rightarrow>
                    (let tbl = store_drift fp k v (g_clientDriftValues st);
                         st' = st\<lparr>g_clientDriftValues := tbl\<rparr>
                     in (st', drift_updates (connectedClients st) fp
                                (updated_drifts fp k v (g_clientDriftValues st))
                              @ sendBslStatusToAdmin cfg st' None))))"

section \<open>Example configurations and states\<close>

definition server_config :: config where
  "server_config =
     \<lparr> SERVER_MODE = True, ADMIN_FINGERPRINT_LOCK = False, CLIENT_CONTROLS_DISABLED = False,
       CLIENT_SYNC_DISABLED = False, VIDEO_AUTOPLAY = False, SKIP_SECONDS = 5,
       BSL_ADVANCED_MATCH = True, BSL_ADVANCED_MATCH_THRESHOLD = 1, BSL_S2_MODE = ''any'',
       FFMPEG_TOOLS_PASSWORD_HASH = Some ''h(secret)'' \<rparr>"

definition legacy_config :: config where
  "legacy_config = server_config\<lparr> SERVER_MODE := False \<rparr>"

text \<open>Room \<open>ABC234\<close>, created at instant 0 by the device \<open>F1\<close>, whose socket \<open>admin1\<close> has
  joined as admin and whose viewer \<open>viewer1\<close> reports as device \<open>V1\<close>.\<close>

definition example_room :: room where
  "example_room =
     (Room 0 ''ABC234'' ''Watch Party'' False (Some ''F1''))
       \<lparr> adminSocketId := Some ''admin1'',
         clients := [(''admin1'', \<lparr> fingerprint = Some ''F1'', client_name = ''Admin'',
                                    connectedAt = 0 \<rparr>),
                     (''viewer1'', \<lparr> fingerprint = Some ''V1'', client_name = ''Guest'',
                                     connectedAt = 0 \<rparr>),
                     (''viewer2'', \<lparr> fingerprint = Some ''V2'', client_name = ''Guest'',
                                     connectedAt = 0 \<rparr>)] \<rparr>"

definition example_server :: server where
  "example_server =
     (boot 0)\<lparr> rooms := [''ABC234'' \<mapsto> example_room],
               socketRoomMap := [''admin1'' \<mapsto> ''ABC234'', ''viewer1'' \<mapsto> ''ABC234'',
                                 ''viewer2'' \<mapsto> ''ABC234''] \<rparr>"

text \<open>The same room after the admin has set the rate to 2 at instant 0.\<close>

definition double_speed_server :: server where
  "double_speed_server =
     example_server\<lparr> rooms := [''ABC234'' \<mapsto>
        example_room\<lparr> videoState := (videoState example_room)\<lparr> playbackRate := 2 \<rparr> \<rparr>] \<rparr>"

definition position_in :: "server \<Rightarrow> string \<Rightarrow> rat option" where
  "position_in st c = map_option (\<lambda>r. currentTime (videoState r)) (rooms st c)"

text \<open>A stand-in for the digest, and a forged request: a POST to the media tools with the
  right password, sent without session cookie and without CSRF token.\<close>

definition example_sha256 :: "string \<Rightarrow> string" where
  "example_sha256 pw = ''h('' @ pw @ '')''"

definition forged_post :: http_request where
  "forged_post =
     \<lparr> req_method = ''POST'', cookie_sync_session = None, header_x_csrf_token = None,
       body_csrf = None, body_password = Some ''secret'', body_type = ''remux'',
       body_filename = Some ''A.mkv'', body_preset = ''copy'', body_options = JUndefined,
       body_jobId = JUndefined \<rparr>"

definition example_av :: node_av where
  "example_av = \<lparr> Demuxer = True, Muxer = True, Decoder = True, Encoder = True \<rparr>"

text \<open>The payload that the admin page sends to clear the playlist, and an adapter that
  finds no tracks.\<close>

definition no_tracks :: "string \<Rightarrow> tracks option" where
  "no_tracks f = None"

definition kill_playlist :: set_playlist_data where
  "kill_playlist = \<lparr> sp_playlist = [], sp_mainVideoIndex = -1, sp_startTime = 0 \<rparr>"

text \<open>The admin-only events as the specification lists them.\<close>

definition admin_whitelist :: "string list" where
  "admin_whitelist =
     [''set-playlist'', ''playlist-reorder'', ''playlist-jump'', ''track-change'',
      ''skip-to-next-video'', ''bsl-check-request'', ''bsl-get-status'', ''bsl-manual-match'',
      ''bsl-set-drift'', ''set-client-name'', ''set-client-display-name'', ''get-client-list'',
      ''delete-room'']"


text \<open>A control payload that carries the action only; the examples set the other fields.\<close>

definition control_event :: "string \<Rightarrow> control_data" where
  "control_event a =
     \<lparr> c_action = JStr a, c_state = False, c_direction = JUndefined, c_seconds = None,
       c_time = JUndefined, c_type = JUndefined, c_trackIndex = JUndefined, c_rate = 1,
       c_isPlaying = False, c_currentTime = JUndefined \<rparr>"


text \<open>A drift event with a numeric index and a numeric drift; the drift that a room stores
  for a fingerprint and a key; the range of the data model; the playback state and playlist
  of a room.\<close>

definition drift_event :: "string \<Rightarrow> rat \<Rightarrow> rat \<Rightarrow> set_drift_data" where
  "drift_event fp i x =
     \<lparr> sd_clientFingerprint = JStr fp, sd_playlistIndex = JNum i, sd_driftSeconds = JNum x \<rparr>"




definition playback_of :: "server \<Rightarrow> string \<Rightarrow> (video_state \<times> playlist) option" where
  "playback_of st c = map_option (\<lambda>r. (videoState r, playlist r)) (rooms st c)"

text \<open>The condition of the specification on the match map of a viewer, for the playlist
  \<open>pl\<close>: each entry has the key of a valid index \<open>i\<close>, and its file name is that of
  item \<open>i\<close> up to case, or is mapped to it by the match memory of the viewer's fingerprint,
  or belongs to a reported file whose score against item \<open>i\<close> reaches the threshold.\<close>

definition remembered :: "server \<Rightarrow> string \<Rightarrow> string \<Rightarrow> string option" where
  "remembered st cid f =
     (case persistentBslMatches st cid of None \<Rightarrow> None | Some m \<Rightarrow> m (toLowerCase f))"

definition score_reached ::
  "config \<Rightarrow> (string \<Rightarrow> int option) \<Rightarrow> client_file \<Rightarrow> playlist_item \<Rightarrow> bool" where
  "score_reached cfg statSize cf v =
     (case matchScore statSize cf v of
        Inl e \<Rightarrow> False | Inr score \<Rightarrow> BSL_ADVANCED_MATCH_THRESHOLD cfg \<le> score)"

definition symmetry_holds ::
  "config \<Rightarrow> (string \<Rightarrow> int option) \<Rightarrow> server \<Rightarrow> playlist \<Rightarrow> bsl_status \<Rightarrow> bool" where
  "symmetry_holds cfg statSize st pl status =
     list_all (\<lambda>(k, f).
        list_ex (\<lambda>i. k = dec_string i
                   \<and> (toLowerCase f = toLowerCase (filename (videos pl ! i))
                      \<or> remembered st (clientId status) f
                          = Some (toLowerCase (filename (videos pl ! i)))
                      \<or> list_ex (\<lambda>cf. file_name cf = f \<and> score_reached cfg statSize cf (videos pl ! i))
                           (files status)))
          [0..<length (videos pl)])
       (matchedVideos status)"

definition symmetry_in ::
  "config \<Rightarrow> (string \<Rightarrow> int option) \<Rightarrow> server \<Rightarrow> string \<Rightarrow> string \<Rightarrow> bool option" where
  "symmetry_in cfg statSize st c sock =
     (case rooms st c of
        None \<Rightarrow> None
      | Some r \<Rightarrow> map_option (symmetry_holds cfg statSize st (playlist r))
                   (map_of (clientBslStatus r) sock))"

text \<open>What justifies an entry of a match map that the server computes for the client id
  \<open>cid\<close>, the reported file \<open>cf\<close> and the playlist item \<open>v\<close>.\<close>

definition match_justified ::
  "config \<Rightarrow> (string \<Rightarrow> int option) \<Rightarrow> server \<Rightarrow> string \<Rightarrow> client_file \<Rightarrow> playlist_item \<Rightarrow> bool" where
  "match_justified cfg statSize st cid cf v =
     (remembered st cid (file_name cf) = Some (toLowerCase (filename v))
      \<or> (BSL_ADVANCED_MATCH cfg \<and> score_reached cfg statSize cf v)
      \<or> (\<not> BSL_ADVANCED_MATCH cfg
          \<and> toLowerCase (file_name cf) = toLowerCase (filename v)))"

definition viewer_matches :: "server \<Rightarrow> string \<Rightarrow> string \<Rightarrow> (string \<times> string) list option" where
  "viewer_matches st c sock =
     (case rooms st c of
        None \<Rightarrow> None
      | Some r \<Rightarrow> map_option matchedVideos (map_of (clientBslStatus r) sock))"

definition playlist_files :: "server \<Rightarrow> string \<Rightarrow> string list option" where
  "playlist_files st c = map_option (\<lambda>r. map filename (videos (playlist r))) (rooms st c)"

text \<open>A scenario: the server holds \<open>Movie.mkv\<close> (900 MiB) and \<open>Other.mp4\<close> (5 MiB); the
  threshold is 3; the admin launches \<open>Movie.mkv\<close>, viewer \<open>V1\<close> reports a folder with
  \<open>movie.mkv\<close> (900.4 MiB), and the admin then launches \<open>Other.mp4\<close>, or clears the
  playlist.\<close>

definition local_item :: "string \<Rightarrow> playlist_item" where
  "local_item f =
     \<lparr> filename = f, isExternal = False, item_tracks = \<lparr> audio = [], subtitles = [] \<rparr>,
       selectedAudioTrack = JUndefined, selectedSubtitleTrack = JUndefined, usesHEVC = False \<rparr>"

definition launch :: "playlist_item list \<Rightarrow> set_playlist_data" where
  "launch items = \<lparr> sp_playlist = items, sp_mainVideoIndex = 0, sp_startTime = 0 \<rparr>"

definition example_statSize :: "string \<Rightarrow> int option" where
  "example_statSize f =
     (if f = ''Movie.mkv'' then Some 943718400
      else if f = ''Other.mp4'' then Some 5242880 else None)"

definition strict_config :: config where
  "strict_config = server_config\<lparr> BSL_ADVANCED_MATCH_THRESHOLD := 3 \<rparr>"

definition viewer_report :: folder_data where
  "viewer_report =
     \<lparr> fd_clientId = Some ''V1'', fd_clientName = None,
       fd_files = [\<lparr> file_name = ''movie.mkv'', file_size = Some 944137830,
                      file_type = Some ''video/x-matroska'' \<rparr>] \<rparr>"

definition after :: "fault + (server \<times> emit list) \<Rightarrow> server option" where
  "after res = (case res of Inl e \<Rightarrow> None | Inr (st, out) \<Rightarrow> Some st)"

definition server_after_launch :: server where
  "server_after_launch =
     fst (set_playlist no_tracks strict_config 1000 ''admin1'' (launch [local_item ''Movie.mkv''])
            example_server)"

definition server_after_report :: server where
  "server_after_report =
     (case bsl_folder_selected strict_config example_statSize ''viewer1'' viewer_report
             server_after_launch of
        Inr (st, out) \<Rightarrow> st | Inl e \<Rightarrow> server_after_launch)"

definition server_after_relaunch :: server where
  "server_after_relaunch =
     fst (set_playlist no_tracks strict_config 2000 ''admin1'' (launch [local_item ''Other.mp4''])
       server_after_report)"

definition server_after_kill :: server where
  "server_after_kill =
     fst (set_playlist no_tracks strict_config 2000 ''admin1'' kill_playlist server_after_report)"

definition manual_request :: manual_match_data where
  "manual_request =
     \<lparr> mm_clientSocketId = ''viewer1'', mm_clientFileName = ''Film.mkv'', mm_playlistIndex = 0 \<rparr>"

text \<open>Legacy mode: socket \<open>admin1\<close> has registered as admin, \<open>viewer1\<close> has not.\<close>

definition legacy_server :: server where
  "legacy_server =
     (boot 0)\<lparr> g_adminSocketId := Some ''admin1'', verifiedAdminSockets := {''admin1''},
               connectedClients :=
                 [(''admin1'', \<lparr> fingerprint = Some ''F1'', client_name = ''Admin'',
                                connectedAt = 0 \<rparr>),
                  (''viewer1'', \<lparr> fingerprint = Some ''V1'', client_name = ''Guest'',
                                 connectedAt = 0 \<rparr>)] \<rparr>"





text \<open>Successive runs of the ticker, at the given instants; the play flag and the playlist
  of a room; the creation of room \<open>ABC234\<close> at instant 0 by socket \<open>admin1\<close>, and the
  state after the first tick.\<close>

definition ticks :: "config \<Rightarrow> int list \<Rightarrow> server \<Rightarrow> server" where
  "ticks cfg ts st = fold (\<lambda>t s. fst (syncInterval cfg t s)) ts st"

definition playing_in :: "server \<Rightarrow> string \<Rightarrow> bool option" where
  "playing_in st c = map_option (\<lambda>r. isPlaying (videoState r)) (rooms st c)"

definition items_in :: "server \<Rightarrow> string \<Rightarrow> (playlist_item list \<times> int) option" where
  "items_in st c = map_option (\<lambda>r. (videos (playlist r), currentIndex (playlist r))) (rooms st c)"

definition new_room_request :: create_room_data where
  "new_room_request = \<lparr> cr_name = Some ''Watch Party'', cr_isPrivate = JBool False,
                          cr_fingerprint = Some ''F1'', cr_callback = True \<rparr>"

definition created_room :: room where
  "created_room =
     addClient 0 ''admin1'' (Some ''F1'') (Some ''Admin'')
       ((Room 0 ''ABC234'' ''Watch Party'' False (Some ''F1''))\<lparr>adminSocketId := Some ''admin1''\<rparr>)"

definition created_server :: server where
  "created_server =
     (boot 0)\<lparr> rooms := [''ABC234'' \<mapsto> created_room],
               socketRoomMap := [''admin1'' \<mapsto> ''ABC234''] \<rparr>"

definition ticked_server :: server where
  "ticked_server = ticks server_config [5000] created_server"

text \<open>The scenario of the local files, state by state: the item as \<open>set-playlist\<close> stores
  it, the file that the viewer reports, the room after the launch, the status that the
  report leaves, and the same in legacy mode; the entry of a match map, and what a manual
  match of \<open>Film.mkv\<close> leaves for viewer \<open>viewer1\<close>.\<close>

definition movie_item :: playlist_item where
  "movie_item = process_item no_tracks (local_item ''Movie.mkv'')"

definition movie_file :: client_file where
  "movie_file = \<lparr> file_name = ''movie.mkv'', file_size = Some 944137830,
                   file_type = Some ''video/x-matroska'' \<rparr>"

definition launched_room :: room where
  "launched_room =
     example_room\<lparr> playlist := fst (set_playlist_state no_tracks strict_config 1000
                                      (launch [local_item ''Movie.mkv''])
                                      (playlist example_room, videoState example_room)),
                   videoState := snd (set_playlist_state no_tracks strict_config 1000
                                      (launch [local_item ''Movie.mkv''])
                                      (playlist example_room, videoState example_room)) \<rparr>"

definition reported_status :: bsl_status where
  "reported_status =
     \<lparr> clientId = ''V1'', clientName = ''V1'', folderSelected = True, files = [movie_file],
       matchedVideos = [(''0'', ''movie.mkv'')] \<rparr>"

definition reported_room :: room where
  "reported_room = launched_room\<lparr> clientBslStatus := [(''viewer1'', reported_status)] \<rparr>"

definition legacy_strict :: config where
  "legacy_strict = strict_config\<lparr> SERVER_MODE := False \<rparr>"

definition legacy_after_launch :: server where
  "legacy_after_launch =
     fst (set_playlist no_tracks legacy_strict 1000 ''admin1'' (launch [local_item ''Movie.mkv''])
            legacy_server)"

definition legacy_after_report :: server where
  "legacy_after_report =
     legacy_after_launch\<lparr> g_clientBslStatus := [(''viewer1'', reported_status)] \<rparr>"

definition report_emits :: "emit list" where
  "report_emits =
     (case bsl_folder_selected strict_config example_statSize ''viewer1'' viewer_report
             server_after_launch of
        Inr (st, out) \<Rightarrow> out | Inl e \<Rightarrow> [])"

definition match_at :: "server \<Rightarrow> string option \<Rightarrow> string \<Rightarrow> string \<Rightarrow> string option" where
  "match_at st c sock k =
     (case (case c of
              None \<Rightarrow> map_of (g_clientBslStatus st) sock
            | Some rc \<Rightarrow> (case rooms st rc of None \<Rightarrow> None
                          | Some r \<Rightarrow> map_of (clientBslStatus r) sock)) of
        None \<Rightarrow> None
      | Some status \<Rightarrow> map_of (matchedVideos status) k)"

definition manual_outcome ::
  "fault + (server \<times> emit list) \<Rightarrow> string option \<Rightarrow> (string option \<times> string option) option" where
  "manual_outcome res c =
     (case res of
        Inl e \<Rightarrow> None
      | Inr (st, out) \<Rightarrow> Some (match_at st c ''viewer1'' ''0'', remembered st ''V1'' ''Film.mkv''))"

text \<open>Reports under a client id that names a property of \<open>Object.prototype\<close>, and what a
  handler leaves for viewer \<open>viewer1\<close>: the match map and the remembered match of
  \<open>Film.mkv\<close>, or the fault.\<close>

definition proto_report :: folder_data where
  "proto_report = viewer_report\<lparr> fd_clientId := Some ''__proto__'' \<rparr>"

definition method_report :: folder_data where
  "method_report = viewer_report\<lparr> fd_clientId := Some ''constructor'' \<rparr>"

definition outcome_of ::
  "fault + (server \<times> emit list) \<Rightarrow> string
     \<Rightarrow> fault + ((string \<times> string) list option \<times> string option)" where
  "outcome_of res cid =
     (case res of
        Inl e \<Rightarrow> Inl e
      | Inr (st, out) \<Rightarrow>
          Inr (viewer_matches st ''ABC234'' ''viewer1'', remembered st cid ''Film.mkv''))"

section \<open>The example room\<close>

lemma toUpperCase_ABC234: "toUpperCase ''ABC234'' = ''ABC234''"
  by (simp add: toUpperCase_def toUpperCase_char_def)

lemma room_of_socket_example:
  "room_of_socket example_server ''admin1'' = Some (''ABC234'', example_room)"
  "room_of_socket example_server ''viewer1'' = Some (''ABC234'', example_room)"
  "room_of_socket example_server ''stranger'' = None"
  by (simp_all add: room_of_socket_def example_server_def getRoom_def toUpperCase_ABC234 boot_def)

section \<open>The clock: properties\<close>

lemma consolidateTime_spec:
  "playbackRate s \<noteq> 0 \<Longrightarrow> consolidateTime now s = spec_consolidate now s"
  by (cases "lastUpdate s > now")
     (auto simp: consolidateTime_def spec_consolidate_def Let_def max_def
        divide_le_0_iff zero_less_divide_iff not_less)

lemma syncInterval_no_emit: "snd (syncInterval cfg now st) = []"
  by (simp add: syncInterval_def)

lemma syncInterval_state_rate_one:
  "playbackRate s = 1 \<Longrightarrow> lastUpdate s \<le> now \<Longrightarrow>
   syncInterval_state now s = (if isPlaying s then spec_consolidate now s else s)"
  by (simp add: syncInterval_state_def spec_consolidate_def max_def)

text \<open>
  Claim C1.  Every firing of the 5-second ticker consolidates each playing room: the
  position grows by the rate times the elapsed time.  The ticker of the source adds the
  elapsed time itself, whatever the rate: in a room that has played at rate 2 since instant 0
  (the admin's rate event at 0 leads there, see \<open>double_speed_reached\<close> below), the tick at
  5000 ms stores position 5, where \<open>consolidate\<close> (as specified, and as \<open>consolidateTime\<close>
  computes it) gives 10.  The tick emits nothing.
\<close>

theorem syncInterval_ignores_rate:
  "position_in (fst (syncInterval server_config 5000 double_speed_server)) ''ABC234'' = Some 5
   \<and> map_option (\<lambda>r. currentTime (spec_consolidate 5000 (videoState r)))
        (rooms double_speed_server ''ABC234'') = Some 10
   \<and> map_option (\<lambda>r. currentTime (consolidateTime 5000 (videoState r)))
        (rooms double_speed_server ''ABC234'') = Some 10
   \<and> snd (syncInterval server_config 5000 double_speed_server) = []"
  by (simp add: syncInterval_def syncInterval_state_def spec_consolidate_def consolidateTime_def
        position_in_def double_speed_server_def example_server_def example_room_def Room_def
        server_config_def boot_def)

lemma syncInterval_room:
  "SERVER_MODE cfg \<Longrightarrow> rooms st k = Some r \<Longrightarrow>
   rooms (fst (syncInterval cfg t st)) k
     = Some (r\<lparr>videoState := syncInterval_state t (videoState r)\<rparr>)"
  by (simp add: syncInterval_def)

lemma ticks_room:
  assumes "SERVER_MODE cfg"
  shows "rooms st k = Some r \<Longrightarrow> isPlaying (videoState r) \<Longrightarrow> ts \<noteq> [] \<Longrightarrow>
         rooms (ticks cfg ts st) k
           = Some (r\<lparr>videoState := (videoState r)\<lparr>currentTime := currentTime (videoState r)
                        + of_int (last ts - lastUpdate (videoState r)) / 1000,
                      lastUpdate := last ts\<rparr>\<rparr>)"
proof (induction ts arbitrary: st r)
  case Nil
  then show ?case by simp
next
  case (Cons t ts)
  let ?r = "r\<lparr>videoState := syncInterval_state t (videoState r)\<rparr>"
  have r: "rooms (fst (syncInterval cfg t st)) k = Some ?r"
    using assms Cons.prems(1) by (rule syncInterval_room)
  have p: "isPlaying (videoState ?r)"
    using Cons.prems(2) by (simp add: syncInterval_state_def)
  show ?case
  proof (cases "ts = []")
    case True
    with r Cons.prems(2) show ?thesis
      by (simp add: ticks_def syncInterval_state_def)
  next
    case False
    from Cons.IH [OF r p False] Cons.prems(2) False
    show ?thesis
      by (simp add: ticks_def syncInterval_state_def diff_divide_distrib)
  qed
qed

text \<open>
  Claim C10.  A room is created playing, at position 0, with an empty playlist and current
  index -1, and so is the legacy state at boot.  The room that \<open>create-room\<close> leaves, with
  its admin socket and first client, is such a room, and the ticker advances its stored
  position to the time elapsed since the creation, whatever the number of ticks, while the
  play flag stays set and the playlist stays empty, although no item was ever set.  The
  ticker does the same to every playing room and to the legacy state, and changes the play
  flag of no room.  \<open>set-playlist\<close>, taken as one step, writes \<open>VIDEO_AUTOPLAY\<close> into
  the play flag; \<open>create-room\<close>, the ticker and \<open>control\<close> do not depend on that
  setting.
\<close>

theorem new_room_is_playing:
  "(SERVER_MODE cfg \<and> generateRoomCode draws (rooms st) = Some k
      \<longrightarrow> (\<exists>st1 out r1.
             create_room cfg t draws sid d st = Some (st1, out)
             \<and> rooms st1 k = Some r1
             \<and> adminSocketId r1 = Some sid \<and> map_of (clients r1) sid \<noteq> None
             \<and> isPlaying (videoState r1)
             \<and> currentTime (videoState r1) = 0 \<and> lastUpdate (videoState r1) = t
             \<and> videos (playlist r1) = [] \<and> currentIndex (playlist r1) = -1
             \<and> (\<forall>ts. ts \<noteq> []
                   \<longrightarrow> position_in (ticks cfg ts st1) k = Some (of_int (last ts - t) / 1000)
                       \<and> playing_in (ticks cfg ts st1) k = Some True
                       \<and> items_in (ticks cfg ts st1) k = Some ([], -1))))
   \<and> isPlaying (g_videoState (boot tb))
   \<and> currentTime (g_videoState (boot tb)) = 0
   \<and> videos (PLAYLIST (boot tb)) = []
   \<and> currentIndex (PLAYLIST (boot tb)) = -1
   \<and> (\<not> SERVER_MODE cfgb
        \<longrightarrow> currentTime (g_videoState (fst (syncInterval cfgb tb' (boot tb))))
              = of_int (tb' - tb) / 1000
            \<and> isPlaying (g_videoState (fst (syncInterval cfgb tb' (boot tb))))
            \<and> PLAYLIST (fst (syncInterval cfgb tb' (boot tb))) = PLAYLIST (boot tb))
   \<and> (SERVER_MODE cfgc \<and> rooms stc kc = Some rm \<and> isPlaying (videoState rm)
        \<longrightarrow> rooms (fst (syncInterval cfgc tc stc)) kc
              = Some (rm\<lparr>videoState := (videoState rm)
                         \<lparr>currentTime := currentTime (videoState rm)
                            + of_int (tc - lastUpdate (videoState rm)) / 1000,
                          lastUpdate := tc\<rparr>\<rparr>))
   \<and> playing_in (fst (syncInterval cfgc tc stc)) kc = playing_in stc kc
   \<and> (\<not> SERVER_MODE cfgd \<and> isPlaying (g_videoState std)
        \<longrightarrow> g_videoState (fst (syncInterval cfgd td std))
              = (g_videoState std)
                  \<lparr>currentTime := currentTime (g_videoState std)
                     + of_int (td - lastUpdate (g_videoState std)) / 1000,
                   lastUpdate := td\<rparr>)
   \<and> (SERVER_MODE cfge \<and> room_of_socket ste side = Some (rc, r) \<and> adminSocketId r = Some side
        \<longrightarrow> playing_in (fst (set_playlist getTracksForFile cfge te side de ste)) (toUpperCase rc)
              = Some (VIDEO_AUTOPLAY cfge))
   \<and> (\<not> SERVER_MODE cfgf
        \<longrightarrow> isPlaying (g_videoState (fst (set_playlist getTracksForFile cfgf tf sidf df stf)))
              = VIDEO_AUTOPLAY cfgf)
   \<and> create_room (cfgg\<lparr>VIDEO_AUTOPLAY := b\<rparr>) tg drawsg sidg dg stg
       = create_room cfgg tg drawsg sidg dg stg
   \<and> syncInterval (cfgg\<lparr>VIDEO_AUTOPLAY := b\<rparr>) tg stg = syncInterval cfgg tg stg
   \<and> control (cfgg\<lparr>VIDEO_AUTOPLAY := b\<rparr>) tg sidg cdg stg = control cfgg tg sidg cdg stg"
proof (intro conjI impI)
  assume a: "SERVER_MODE cfg \<and> generateRoomCode draws (rooms st) = Some k"
  define roomName where "roomName = (case cr_name d of
                                   Some n \<Rightarrow> if n \<noteq> [] then n else ''Watch Party''
                                 | None \<Rightarrow> ''Watch Party'')"
  define r1 where "r1 = addClient t sid (cr_fingerprint d) (Some ''Admin'')
                              ((Room t k roomName (cr_isPrivate d = JBool True) (cr_fingerprint d))
                                 \<lparr>adminSocketId := Some sid\<rparr>)"
  define st1 where "st1 = st\<lparr>rooms := (rooms st)(k \<mapsto> r1),
                              socketRoomMap := (socketRoomMap st)(sid \<mapsto> k)\<rparr>"
  define out where "out = (if cr_callback d
                           then [(ToSocket sid, ''create-room'', PRoomCreated k roomName)] else [])
                          @ [(ToAll, ''rooms-updated'', PPublicRooms)]"
  have c: "create_room cfg t draws sid d st = Some (st1, out)"
    using a by (simp add: create_room_def Let_def roomName_def r1_def st1_def out_def)
  have k: "rooms st1 k = Some r1" by (simp add: st1_def)
  have f: "adminSocketId r1 = Some sid" "map_of (clients r1) sid \<noteq> None"
          "isPlaying (videoState r1)" "currentTime (videoState r1) = 0"
          "lastUpdate (videoState r1) = t" "videos (playlist r1) = []"
          "currentIndex (playlist r1) = -1"
    by (simp_all add: r1_def addClient_def Room_def update_conv')
  have "position_in (ticks cfg ts st1) k = Some (of_int (last ts - t) / 1000)
        \<and> playing_in (ticks cfg ts st1) k = Some True
        \<and> items_in (ticks cfg ts st1) k = Some ([], -1)" if "ts \<noteq> []" for ts
    using ticks_room [of cfg st1 k r1 ts] a k f that
    by (simp add: position_in_def playing_in_def items_in_def)
  with c k f show "\<exists>st1 out r1.
             create_room cfg t draws sid d st = Some (st1, out)
             \<and> rooms st1 k = Some r1
             \<and> adminSocketId r1 = Some sid \<and> map_of (clients r1) sid \<noteq> None
             \<and> isPlaying (videoState r1)
             \<and> currentTime (videoState r1) = 0 \<and> lastUpdate (videoState r1) = t
             \<and> videos (playlist r1) = [] \<and> currentIndex (playlist r1) = -1
             \<and> (\<forall>ts. ts \<noteq> []
                   \<longrightarrow> position_in (ticks cfg ts st1) k = Some (of_int (last ts - t) / 1000)
                       \<and> playing_in (ticks cfg ts st1) k = Some True
                       \<and> items_in (ticks cfg ts st1) k = Some ([], -1))"
    by blast
next
  show "isPlaying (g_videoState (boot tb))" "currentTime (g_videoState (boot tb)) = 0"
       "videos (PLAYLIST (boot tb)) = []" "currentIndex (PLAYLIST (boot tb)) = -1"
    by (simp_all add: boot_def videoState_init_def PLAYLIST_init_def)
next
  assume "\<not> SERVER_MODE cfgb"
  then show "currentTime (g_videoState (fst (syncInterval cfgb tb' (boot tb))))
              = of_int (tb' - tb) / 1000"
       "isPlaying (g_videoState (fst (syncInterval cfgb tb' (boot tb))))"
       "PLAYLIST (fst (syncInterval cfgb tb' (boot tb))) = PLAYLIST (boot tb)"
    by (simp_all add: syncInterval_def syncInterval_state_def boot_def videoState_init_def)
next
  assume "SERVER_MODE cfgc \<and> rooms stc kc = Some rm \<and> isPlaying (videoState rm)"
  then show "rooms (fst (syncInterval cfgc tc stc)) kc
              = Some (rm\<lparr>videoState := (videoState rm)
                         \<lparr>currentTime := currentTime (videoState rm)
                            + of_int (tc - lastUpdate (videoState rm)) / 1000,
                          lastUpdate := tc\<rparr>\<rparr>)"
    by (simp add: syncInterval_def syncInterval_state_def)
next
  show "playing_in (fst (syncInterval cfgc tc stc)) kc = playing_in stc kc"
    by (cases "rooms stc kc")
       (simp_all add: syncInterval_def syncInterval_state_def playing_in_def)
next
  assume "\<not> SERVER_MODE cfgd \<and> isPlaying (g_videoState std)"
  then show "g_videoState (fst (syncInterval cfgd td std))
              = (g_videoState std)
                  \<lparr>currentTime := currentTime (g_videoState std)
                     + of_int (td - lastUpdate (g_videoState std)) / 1000,
                   lastUpdate := td\<rparr>"
    by (simp add: syncInterval_def syncInterval_state_def)
next
  assume "SERVER_MODE cfge \<and> room_of_socket ste side = Some (rc, r) \<and> adminSocketId r = Some side"
  then show "playing_in (fst (set_playlist getTracksForFile cfge te side de ste)) (toUpperCase rc)
              = Some (VIDEO_AUTOPLAY cfge)"
    by (simp add: set_playlist_def set_playlist_state_def put_room_def playing_in_def Let_def)
next
  assume "\<not> SERVER_MODE cfgf"
  then show "isPlaying (g_videoState (fst (set_playlist getTracksForFile cfgf tf sidf df stf)))
              = VIDEO_AUTOPLAY cfgf"
    by (simp add: set_playlist_def set_playlist_state_def Let_def)
next
  show "create_room (cfgg\<lparr>VIDEO_AUTOPLAY := b\<rparr>) tg drawsg sidg dg stg
       = create_room cfgg tg drawsg sidg dg stg"
    by (simp add: create_room_def)
  show "syncInterval (cfgg\<lparr>VIDEO_AUTOPLAY := b\<rparr>) tg stg = syncInterval cfgg tg stg"
    by (simp add: syncInterval_def)
  show "control (cfgg\<lparr>VIDEO_AUTOPLAY := b\<rparr>) tg sidg cdg stg = control cfgg tg sidg cdg stg"
    by (simp add: control_def control_server_def control_legacy_def control_state_def
          control_action_def split: option.splits)
qed

lemma created_server_eq:
  "create_room server_config 0 [''ABC234''] ''admin1'' new_room_request (boot 0)
   = Some (created_server,
           [(ToSocket ''admin1'', ''create-room'', PRoomCreated ''ABC234'' ''Watch Party''),
            (ToAll, ''rooms-updated'', PPublicRooms)])"
  by (simp add: created_server_def created_room_def create_room_def server_config_def boot_def
        new_room_request_def Let_def)

lemma ticked_server_room:
  "\<exists>r. room_of_socket ticked_server ''admin1'' = Some (''ABC234'', r)
       \<and> adminSocketId r = Some ''admin1''"
  by (simp add: ticked_server_def ticks_def syncInterval_def created_server_def created_room_def
        server_config_def boot_def room_of_socket_def getRoom_def
        toUpperCase_ABC234 addClient_def Room_def)

theorem new_room_is_playing_witness:
  "SERVER_MODE server_config \<and> \<not> VIDEO_AUTOPLAY server_config
   \<and> generateRoomCode [''ABC234''] (rooms (boot 0)) = Some ''ABC234''
   \<and> create_room server_config 0 [''ABC234''] ''admin1'' new_room_request (boot 0)
       = Some (created_server,
               [(ToSocket ''admin1'', ''create-room'', PRoomCreated ''ABC234'' ''Watch Party''),
                (ToAll, ''rooms-updated'', PPublicRooms)])
   \<and> playing_in created_server ''ABC234'' = Some True
   \<and> items_in created_server ''ABC234'' = Some ([], -1)
   \<and> position_in created_server ''ABC234'' = Some 0
   \<and> position_in (ticks server_config [5000] created_server) ''ABC234'' = Some 5
   \<and> position_in (ticks server_config [5000, 10000] created_server) ''ABC234'' = Some 10
   \<and> playing_in (ticks server_config [5000, 10000] created_server) ''ABC234'' = Some True
   \<and> items_in (ticks server_config [5000, 10000] created_server) ''ABC234'' = Some ([], -1)
   \<and> \<not> SERVER_MODE legacy_config
   \<and> currentTime (g_videoState (fst (syncInterval legacy_config 5000 (boot 0)))) = 5
   \<and> playing_in ticked_server ''ABC234'' = Some True
   \<and> playing_in (fst (set_playlist no_tracks server_config 6000 ''admin1''
                         (launch [local_item ''Movie.mkv'']) ticked_server)) ''ABC234''
       = Some False
   \<and> isPlaying (g_videoState (boot 0))
   \<and> \<not> isPlaying (g_videoState (fst (set_playlist no_tracks legacy_config 6000 ''admin1''
                         (launch [local_item ''Movie.mkv''])
                         (fst (syncInterval legacy_config 5000 (boot 0))))))"
proof -
  obtain r where r: "room_of_socket ticked_server ''admin1'' = Some (''ABC234'', r)"
      "adminSocketId r = Some ''admin1''"
    using ticked_server_room by blast
  have g: "generateRoomCode [''ABC234''] (rooms (boot 0)) = Some ''ABC234''"
    by (simp add: boot_def)
  have c: "SERVER_MODE server_config" "\<not> VIDEO_AUTOPLAY server_config"
          "\<not> SERVER_MODE legacy_config" "\<not> VIDEO_AUTOPLAY legacy_config"
    by (simp_all add: server_config_def legacy_config_def)
  note T = new_room_is_playing [where cfg = server_config and draws = "[''ABC234'']"
        and st = "boot 0" and k = "''ABC234''" and t = 0 and sid = "''admin1''"
        and d = new_room_request and tb = 0 and cfgb = legacy_config and tb' = 5000
        and cfgc = server_config and stc = created_server and kc = "''ABC234''"
        and cfgd = legacy_config and std = "boot 0" and td = 5000
        and cfge = server_config and ste = ticked_server and side = "''admin1''"
        and rc = "''ABC234''" and r = r and getTracksForFile = no_tracks and te = 6000
        and de = "launch [local_item ''Movie.mkv'']"
        and cfgf = legacy_config and tf = 6000 and sidf = "''admin1''"
        and df = "launch [local_item ''Movie.mkv'']"
        and stf = "fst (syncInterval legacy_config 5000 (boot 0))"
        and rm = created_room and tc = 5000 and b = True and cfgg = server_config and tg = 0
        and drawsg = "[''ABC234'']" and sidg = "''admin1''" and dg = new_room_request
        and stg = "boot 0" and cdg = None]
  from T [THEN conjunct1] g c(1) created_server_eq obtain r1 where r1:
      "rooms created_server ''ABC234'' = Some r1" "isPlaying (videoState r1)"
      "currentTime (videoState r1) = 0" "videos (playlist r1) = []"
      "currentIndex (playlist r1) = -1"
      "\<And>ts. ts \<noteq> [] \<Longrightarrow>
         position_in (ticks server_config ts created_server) ''ABC234''
           = Some (of_int (last ts - 0) / 1000)
         \<and> playing_in (ticks server_config ts created_server) ''ABC234'' = Some True
         \<and> items_in (ticks server_config ts created_server) ''ABC234'' = Some ([], -1)"
    by auto
  have a: "playing_in created_server ''ABC234'' = Some True"
          "items_in created_server ''ABC234'' = Some ([], -1)"
          "position_in created_server ''ABC234'' = Some 0"
    using r1(1-5) by (simp_all add: playing_in_def items_in_def position_in_def)
  have b: "position_in (ticks server_config [5000] created_server) ''ABC234'' = Some 5"
          "playing_in ticked_server ''ABC234'' = Some True"
    using r1(6) [of "[5000]"] by (simp_all add: ticked_server_def)
  have b2: "position_in (ticks server_config [5000, 10000] created_server) ''ABC234'' = Some 10"
          "playing_in (ticks server_config [5000, 10000] created_server) ''ABC234'' = Some True"
          "items_in (ticks server_config [5000, 10000] created_server) ''ABC234'' = Some ([], -1)"
    using r1(6) [of "[5000, 10000]"] by simp_all
  have l: "currentTime (g_videoState (fst (syncInterval legacy_config 5000 (boot 0)))) = 5"
          "isPlaying (g_videoState (boot 0))"
    using T c(3) by (simp_all add: boot_def videoState_init_def)
  have s: "playing_in (fst (set_playlist no_tracks server_config 6000 ''admin1''
                         (launch [local_item ''Movie.mkv'']) ticked_server)) ''ABC234''
           = Some False"
    using T c(1,2) r by (simp add: toUpperCase_ABC234)
  have sl: "\<not> isPlaying (g_videoState (fst (set_playlist no_tracks legacy_config 6000 ''admin1''
                         (launch [local_item ''Movie.mkv''])
                         (fst (syncInterval legacy_config 5000 (boot 0))))))"
    using T c(3,4) by (simp add: boot_def videoState_init_def)
  show ?thesis
    using g c created_server_eq a b b2 l s sl by simp
qed

section \<open>The CSRF check\<close>

lemma csrfProtection_safe_methods:
  "req_method req \<in> {''GET'', ''HEAD'', ''OPTIONS''} \<Longrightarrow> csrfProtection now st req = CallNext"
  by (auto simp: csrfProtection_def)

lemma csrfProtection_mutating:
  assumes "req_method req \<notin> {''GET'', ''HEAD'', ''OPTIONS''}"
  shows "csrfProtection now st req =
           (if \<exists>i t. cookie_sync_session req = Some i \<and> i \<noteq> [] \<and> request_token req = Some t
                      \<and> t \<noteq> [] \<and> validateCsrfToken now st i t
            then CallNext else Respond (403, BError ''CSRF token validation failed''))"
  using assms
  by (cases "cookie_sync_session req"; cases "request_token req") (auto simp: csrfProtection_def)

text \<open>
  Claim C2.  A mutating request without a valid pair of session cookie and CSRF token is
  answered with 403 and alters nothing.  The middleware \<open>csrfProtection\<close> does answer 403 to
  the forged request, but no route of the source mounts it: the route
  \<open>/api/ffmpeg/run-preset\<close> runs \<open>express.json\<close>, the password gate and its handler, so
  the forged request is answered with 200, and its job is queued and started.
\<close>

theorem run_preset_without_csrf:
  "csrfProtection 0 example_server forged_post
     = Respond (403, BError ''CSRF token validation failed'')
   \<and> post_run_preset example_sha256 example_av server_config 0 forged_post example_server
     = (example_server\<lparr> ffmpegJobCounter := 1,
          ffmpegJobs := [\<lparr> job_id = 1, job_type = ''remux'', job_filename = ''A.mkv'',
                           job_status = ''running'', job_progress = 0, job_startTime = 0,
                           job_preset = ''copy'', job_error = None \<rparr>] \<rparr>, 200, BJob 1)
   \<and> ffmpegJobs (fst (post_run_preset example_sha256 example_av server_config 0 forged_post
                         example_server))
       \<noteq> ffmpegJobs example_server"
  by (simp add: csrfProtection_def post_run_preset_def verifyFfmpegAuth_def forged_post_def
        example_sha256_def server_config_def example_server_def boot_def nonempty_def
        request_token_def runFfmpegJob_start_def example_av_def Let_def)

section \<open>The playlist invariant\<close>

text \<open>
  Claim C5.  The invariant \<open>-1 \<le> currentIndex < len(items)\<close>, and the same for the main
  index, holds after every operation, also after \<open>set-playlist\<close> with no items.  It holds in
  a new room; but \<open>set-playlist\<close> writes current index 0 whatever the list, so after the
  admin page's request to clear the playlist the room has no item and current index 0.
\<close>

theorem set_playlist_empty_breaks_invariant:
  "playlist_invariant (playlist example_room)
   \<and> map_option (\<lambda>r. (videos (playlist r), currentIndex (playlist r)))
        (rooms (fst (set_playlist no_tracks server_config 1000 ''admin1'' kill_playlist
                       example_server)) ''ABC234'') = Some ([], 0)
   \<and> map_option (\<lambda>r. playlist_invariant (playlist r))
        (rooms (fst (set_playlist no_tracks server_config 1000 ''admin1'' kill_playlist
                       example_server)) ''ABC234'') = Some False"
  by (simp add: set_playlist_def room_of_socket_example set_playlist_state_def kill_playlist_def
        playlist_invariant_def put_room_def example_room_def Room_def server_config_def Let_def
        toUpperCase_ABC234)

section \<open>The admin gate\<close>

lemma isSocketAdmin_server_mode:
  "SERVER_MODE cfg \<Longrightarrow>
   isSocketAdmin cfg st sid = (\<exists>rc r. room_of_socket st sid = Some (rc, r) \<and> adminSocketId r = Some sid)"
  by (auto simp: isSocketAdmin_def room_of_socket_def split: option.splits)

lemma isSocketAdmin_legacy:
  "\<not> SERVER_MODE cfg \<Longrightarrow>
   isSocketAdmin cfg st sid = (\<not> ADMIN_FINGERPRINT_LOCK cfg \<or> sid \<in> verifiedAdminSockets st)"
  by (auto simp: isSocketAdmin_def)

lemma whitelist_checked:
  "list_all (\<lambda>e. e \<in> set ADMIN_ONLY_EVENTS \<and> e \<noteq> ''create-room'' \<and> e \<noteq> ''bsl-admin-register'')
     admin_whitelist"
  by code_simp

lemma whitelist_admin_only:
  "e \<in> set admin_whitelist \<Longrightarrow>
   e \<in> set ADMIN_ONLY_EVENTS \<and> e \<noteq> ''create-room'' \<and> e \<noteq> ''bsl-admin-register''"
  using whitelist_checked unfolding list_all_iff by blast

lemma open_events:
  "''create-room'' \<in> set ADMIN_ONLY_EVENTS" "''bsl-admin-register'' \<in> set ADMIN_ONLY_EVENTS"
  by code_simp+

text \<open>
  Claim C6, amended.  An event of the admin-only whitelist sent by a connection that fails
  the server's admin check is rejected: no handler runs, the state is as before, and the
  sender gets \<open>admin-error\<close> (or the answer of the rate limiter, when that has already
  dropped the packet).  \<open>create-room\<close> and \<open>bsl-admin-register\<close> reach their handlers
  from any connection.  The check, \<open>isSocketAdmin\<close>, fails with rooms for a socket that is
  not the admin socket of its room (or is in no room), and in legacy mode for a socket that
  is not a verified admin while the fingerprint lock is on; with the lock off it fails for
  no socket.
\<close>

theorem admin_only_events_rejected:
  "(e \<in> set admin_whitelist \<and> \<not> isSocketAdmin cfg st sid
      \<longrightarrow> admin_middleware cfg st sid e
            = Blocked [(ToSocket sid, ''admin-error'',
                        PAdminError e ''Unauthorized: Admin access required'')]
          \<and> receive_packet on ip rejected cfg st sid e d
            = (st, case rate_limit_middleware ip rejected sid of
                     Blocked out \<Rightarrow> out
                   | Next \<Rightarrow> [(ToSocket sid, ''admin-error'',
                               PAdminError e ''Unauthorized: Admin access required'')]))
   \<and> (rate_limit_middleware ip rejected sid = Next
      \<longrightarrow> receive_packet on ip rejected cfg st sid ''create-room'' d = on ''create-room'' d st
          \<and> receive_packet on ip rejected cfg st sid ''bsl-admin-register'' d
            = on ''bsl-admin-register'' d st)
   \<and> (SERVER_MODE cfg
      \<longrightarrow> isSocketAdmin cfg st sid
          = (case room_of_socket st sid of
               None \<Rightarrow> False | Some (rc, r) \<Rightarrow> adminSocketId r = Some sid))
   \<and> (\<not> SERVER_MODE cfg0
      \<longrightarrow> isSocketAdmin cfg0 st sid
          = (\<not> ADMIN_FINGERPRINT_LOCK cfg0 \<or> sid \<in> verifiedAdminSockets st))"
  using whitelist_admin_only [of e] open_events
    isSocketAdmin_server_mode [of cfg st sid] isSocketAdmin_legacy [of cfg0 st sid]
  by (auto simp: receive_packet_def admin_middleware_def split: gate.splits option.splits)

lemma isSocketAdmin_example:
  "\<not> isSocketAdmin server_config example_server ''viewer1''"
  "isSocketAdmin server_config example_server ''admin1''"
  by (simp_all add: isSocketAdmin_server_mode room_of_socket_example server_config_def
        example_room_def)

theorem admin_only_events_rejected_witness:
  "''set-playlist'' \<in> set admin_whitelist
   \<and> \<not> isSocketAdmin server_config example_server ''viewer1''
   \<and> rate_limit_middleware ''192.168.1.20'' None ''viewer1'' = Next
   \<and> SERVER_MODE server_config
   \<and> \<not> SERVER_MODE legacy_config
   \<and> room_of_socket example_server ''viewer1'' = Some (''ABC234'', example_room)
   \<and> adminSocketId example_room = Some ''admin1''
   \<and> receive_packet (\<lambda>e d st. set_playlist no_tracks server_config 1000 ''viewer1'' d st)
        ''192.168.1.20'' None server_config example_server ''viewer1'' ''set-playlist''
        kill_playlist
      = (example_server, [(ToSocket ''viewer1'', ''admin-error'',
           PAdminError ''set-playlist'' ''Unauthorized: Admin access required'')])"
  using admin_only_events_rejected [of "''set-playlist''" server_config example_server "''viewer1''"
      "\<lambda>e d st. set_playlist no_tracks server_config 1000 ''viewer1'' d st"
      "''192.168.1.20''" None kill_playlist legacy_config]
    isSocketAdmin_example(1) room_of_socket_example(2)
  by (simp add: admin_whitelist_def rate_limit_middleware_def server_config_def
        legacy_config_def example_room_def)

text \<open>
  Claim C6, as stated: an event of the admin-only whitelist sent by a connection that is not
  the admin is rejected.  In legacy mode with the fingerprint lock off the middleware takes
  every socket for an admin ("if lock is disabled, everyone is an admin"): \<open>set-playlist\<close>
  from \<open>viewer1\<close>, which is not the admin socket and never registered, reaches the handler
  and replaces the playlist.
\<close>

theorem legacy_viewer_sets_playlist:
  "g_adminSocketId legacy_server = Some ''admin1''
   \<and> ''viewer1'' \<notin> verifiedAdminSockets legacy_server
   \<and> videos (PLAYLIST legacy_server) = []
   \<and> admin_middleware legacy_config legacy_server ''viewer1'' ''set-playlist'' = Next
   \<and> receive_packet (\<lambda>e d st. set_playlist no_tracks legacy_config 1000 ''viewer1'' d st)
        ''192.168.1.20'' None legacy_config legacy_server ''viewer1'' ''set-playlist''
        (launch [local_item ''Other.mp4''])
      = set_playlist no_tracks legacy_config 1000 ''viewer1'' (launch [local_item ''Other.mp4''])
          legacy_server
   \<and> map filename (videos (PLAYLIST (fst
        (receive_packet (\<lambda>e d st. set_playlist no_tracks legacy_config 1000 ''viewer1'' d st)
           ''192.168.1.20'' None legacy_config legacy_server ''viewer1'' ''set-playlist''
           (launch [local_item ''Other.mp4''])))))
      = [''Other.mp4'']"
proof -
  have m: "admin_middleware legacy_config legacy_server ''viewer1'' ''set-playlist'' = Next"
    by (simp add: admin_middleware_def isSocketAdmin_def legacy_config_def server_config_def)
  have r: "rate_limit_middleware ''192.168.1.20'' None ''viewer1'' = Next"
    by (simp add: rate_limit_middleware_def)
  have p: "map filename (videos (PLAYLIST (fst (set_playlist no_tracks legacy_config 1000
             ''viewer1'' (launch [local_item ''Other.mp4'']) legacy_server)))) = [''Other.mp4'']"
    by (simp add: set_playlist_def set_playlist_state_def legacy_config_def server_config_def
          launch_def local_item_def process_item_def Let_def)
  have s: "g_adminSocketId legacy_server = Some ''admin1''"
          "''viewer1'' \<notin> verifiedAdminSockets legacy_server"
          "videos (PLAYLIST legacy_server) = []"
    by (simp_all add: legacy_server_def boot_def PLAYLIST_init_def)
  show ?thesis
    using m r p s by (simp add: receive_packet_def)
qed

section \<open>The control event: seek and rate\<close>


lemma truthy_JStr: "truthy (JStr a) = (a \<noteq> [])"
  by (simp add: truthy_def)

lemma seek_invalid_time_rejected:
  "c_action d = JStr ''seek'' \<Longrightarrow> \<not> validateCurrentTime (c_time d) \<Longrightarrow>
   control cfg now sid (Some d) st = Some (st, [])"
  by (simp add: control_def)






lemma control_server_rate:
  assumes "SERVER_MODE cfg" "room_of_socket st sid = Some (rc, r)"
      and "CLIENT_CONTROLS_DISABLED cfg \<longrightarrow> adminSocketId r = Some sid"
      and "c_action d = JStr ''rate''"
      and "c_currentTime d = JUndefined \<or> validateCurrentTime (c_currentTime d)"
  shows "control cfg now sid (Some d) st
          = Some (put_room rc
                    (r\<lparr>videoState := (consolidateTime now (videoState r))\<lparr>playbackRate := c_rate d\<rparr>\<rparr>)
                    st,
                  [(ToRoom rc, ''sync'',
                    PSync ((consolidateTime now (videoState r))\<lparr>playbackRate := c_rate d\<rparr>))])"
  using assms
  by (auto simp: control_def control_server_def control_state_def control_action_def truthy_JStr)


text \<open>The state with rate 2 of the first section is what the admin's rate event produces.\<close>

lemma double_speed_reached:
  "control server_config 0 ''admin1'' (Some ((control_event ''rate'')\<lparr>c_rate := 2\<rparr>))
     example_server
   = Some (double_speed_server,
           [(ToRoom ''ABC234'', ''sync'', PSync ((videoState example_room)\<lparr>playbackRate := 2\<rparr>))])"
proof -
  have c: "consolidateTime 0 (videoState example_room) = videoState example_room"
    by (simp add: consolidateTime_def example_room_def Room_def)
  have p: "put_room ''ABC234''
             (example_room\<lparr>videoState := (videoState example_room)\<lparr>playbackRate := 2\<rparr>\<rparr>)
             example_server = double_speed_server"
    by (simp add: put_room_def toUpperCase_ABC234 double_speed_server_def example_server_def)
  have "control server_config 0 ''admin1'' (Some ((control_event ''rate'')\<lparr>c_rate := 2\<rparr>))
          example_server
        = Some (put_room ''ABC234''
                  (example_room\<lparr>videoState :=
                     (consolidateTime 0 (videoState example_room))\<lparr>playbackRate := 2\<rparr>\<rparr>)
                  example_server,
                [(ToRoom ''ABC234'', ''sync'',
                  PSync ((consolidateTime 0 (videoState example_room))\<lparr>playbackRate := 2\<rparr>))])"
    using control_server_rate [of server_config example_server "''admin1''" "''ABC234''"
        example_room "(control_event ''rate'')\<lparr>c_rate := 2\<rparr>" 0]
    by (simp add: room_of_socket_example server_config_def control_event_def)
  then show ?thesis
    by (simp add: c p)
qed












section \<open>Drift\<close>

lemma parseInt_number_of_int:
  assumes "\<bar>n\<bar> < 10 ^ 21"
  shows "parseInt_number (of_int n) = n"
proof (cases "n = 0")
  case True
  then show ?thesis by (simp add: parseInt_number_def)
next
  case False
  then have "1 \<le> \<bar>n\<bar>" by linarith
  then have "(1::rat) \<le> \<bar>of_int n\<bar>"
    by (metis of_int_1_le_iff of_int_abs)
  then have a: "\<not> \<bar>of_int n :: rat\<bar> < 1 / 10 ^ 6" by simp
  have "\<bar>of_int n :: rat\<bar> < of_int (10 ^ 21)"
    using assms by (metis of_int_abs of_int_less_iff)
  then have b: "\<bar>of_int n :: rat\<bar> < 10 ^ 21" by simp
  have c: "- \<lfloor>- (of_int n :: rat)\<rfloor> = n"
    by (metis floor_of_int of_int_minus minus_minus)
  show ?thesis
    using False a b c by (simp add: parseInt_number_def del: of_int_abs)
qed


lemma clampedDrift_of_int:
  "-60 \<le> n \<Longrightarrow> n \<le> 60 \<Longrightarrow> clampedDrift (JNum (of_int n)) = n"
  by (simp add: clampedDrift_def parseInt_def parseInt_number_of_int)



lemma bsl_set_drift_rejected:
  "drift_request d = None \<Longrightarrow> bsl_set_drift cfg sid (Some d) st = (st, [])"
  by (auto simp: bsl_set_drift_def split: option.splits)

lemma isValidInteger_of_nat: "isValidInteger (JNum (of_nat i))"
  by (simp add: isValidInteger_def isInteger_def)

lemma drift_request_integer:
  assumes "fp \<noteq> []" "-60 \<le> n" "n \<le> 60"
  shows "drift_request (drift_event fp (of_nat i) (of_int n)) = Some (fp, dec_string i, n)"
  using assms
  by (simp add: drift_request_def drift_event_def isValidInteger_of_nat less_than_zero_def
        validateDriftSeconds_def isInRange_def property_key_def clampedDrift_of_int)

lemma dec_string_0: "dec_string 0 = ''0''"
  by (simp add: dec_string.simps digit_char_def)


lemma room_of_socket_rooms:
  "room_of_socket st sid = Some (rc, r) \<Longrightarrow> rooms st (toUpperCase rc) = Some r"
  by (auto simp: room_of_socket_def getRoom_def split: option.splits if_splits)






lemma sendBslStatusToAdmin_event:
  "(tgt, e, p) \<in> set (sendBslStatusToAdmin cfg st rc) \<Longrightarrow> e = ''bsl-status-update''"
proof -
  assume a: "(tgt, e, p) \<in> set (sendBslStatusToAdmin cfg st rc)"
  have "\<exists>a q. sendBslStatusToAdmin cfg st rc = [] \<or>
         sendBslStatusToAdmin cfg st rc = [(ToSocket a, ''bsl-status-update'', q)]"
    unfolding sendBslStatusToAdmin_def by (simp split: option.splits)
  with a show ?thesis by auto
qed

lemma drift_updates_target:
  "(tgt, e, p) \<in> set (drift_updates cs fp dv) \<Longrightarrow>
   \<exists>sock ci. tgt = ToSocket sock \<and> (sock, ci) \<in> set cs \<and> fingerprint ci = Some fp"
  by (auto simp: drift_updates_def)

lemma drift_request_fingerprint:
  "drift_request d = Some (fp, k, v) \<Longrightarrow> sd_clientFingerprint d = JStr fp"
  by (auto simp: drift_request_def split: jsval.splits if_splits)

lemma bsl_set_drift_playback:
  "playback_of (fst (bsl_set_drift cfg sid data st)) c = playback_of st c
   \<and> g_videoState (fst (bsl_set_drift cfg sid data st)) = g_videoState st
   \<and> PLAYLIST (fst (bsl_set_drift cfg sid data st)) = PLAYLIST st"
  by (auto simp: bsl_set_drift_def playback_of_def put_room_def Let_def
        dest: room_of_socket_rooms split: option.splits)

lemma bsl_set_drift_targets:
  assumes "(tgt, ''bsl-drift-update'', p) \<in> set (snd (bsl_set_drift cfg sid data st))"
  shows "\<exists>d fp sock ci. data = Some d \<and> sd_clientFingerprint d = JStr fp \<and> tgt = ToSocket sock
           \<and> fingerprint ci = Some fp
           \<and> (if SERVER_MODE cfg
               then \<exists>rc r. room_of_socket st sid = Some (rc, r) \<and> (sock, ci) \<in> set (clients r)
               else (sock, ci) \<in> set (connectedClients st))"
proof -
  from assms obtain d where d: "data = Some d"
    by (cases data) (auto simp: bsl_set_drift_def)
  from assms d obtain fp k v where req: "drift_request d = Some (fp, k, v)"
    by (cases "drift_request d") (auto simp: bsl_set_drift_rejected)
  then have fp: "sd_clientFingerprint d = JStr fp"
    by (rule drift_request_fingerprint)
  show ?thesis
  proof (cases "SERVER_MODE cfg")
    case False
    with assms d req have "(tgt, ''bsl-drift-update'', p)
        \<in> set (drift_updates (connectedClients st) fp (updated_drifts fp k v (g_clientDriftValues st)))"
      by (auto simp: bsl_set_drift_def Let_def dest: sendBslStatusToAdmin_event)
    then show ?thesis
      using False d fp by (auto dest!: drift_updates_target)
  next
    case True
    from assms d True obtain rc r where r: "room_of_socket st sid = Some (rc, r)"
      by (cases "room_of_socket st sid") (auto simp: bsl_set_drift_def)
    with assms d req True have "(tgt, ''bsl-drift-update'', p)
        \<in> set (drift_updates (clients r) fp (updated_drifts fp k v (clientDriftValues r)))"
      by (auto simp: bsl_set_drift_def Let_def split: if_splits dest: sendBslStatusToAdmin_event)
    then show ?thesis
      using True d fp r by (auto dest!: drift_updates_target)
  qed
qed

lemma bsl_set_drift_example:
  "snd (bsl_set_drift server_config ''admin1'' (Some (drift_event ''V1'' 0 (-3))) example_server)
     = [(ToSocket ''viewer1'', ''bsl-drift-update'',
         PDriftValues (updated_drifts ''V1'' ''0'' (-3) (clientDriftValues example_room))),
        (ToSocket ''admin1'', ''bsl-status-update'',
         bsl_status_payload server_config [] 
           (store_drift ''V1'' ''0'' (-3) (clientDriftValues example_room))
           (playlist example_room))]"
proof -
  have "drift_request (drift_event ''V1'' 0 (-3)) = Some (''V1'', ''0'', -3)"
    using drift_request_integer [of "''V1''" "-3" 0] by (simp add: dec_string_0)
  then show ?thesis
    by (simp add: bsl_set_drift_def room_of_socket_example Let_def drift_updates_def
          sendBslStatusToAdmin_def getRoom_def put_room_def toUpperCase_ABC234 nonempty_def
          server_config_def example_room_def Room_def)
qed

text \<open>
  Claim C9.  An update of the drift table by \<open>bsl-set-drift\<close> leaves the playback state
  and the playlist of every room (and of legacy mode) as they were, and each
  \<open>bsl-drift-update\<close> it emits goes to one socket, a connection of the admin's room (of
  the server, in legacy mode) whose fingerprint is the one in the event.
\<close>

theorem drift_isolation:
  "playback_of (fst (bsl_set_drift cfg sid data st)) c = playback_of st c
   \<and> g_videoState (fst (bsl_set_drift cfg sid data st)) = g_videoState st
   \<and> PLAYLIST (fst (bsl_set_drift cfg sid data st)) = PLAYLIST st
   \<and> ((tgt, ''bsl-drift-update'', p) \<in> set (snd (bsl_set_drift cfg sid data st))
        \<longrightarrow> (\<exists>d fp sock ci. data = Some d \<and> sd_clientFingerprint d = JStr fp
                \<and> tgt = ToSocket sock \<and> fingerprint ci = Some fp
                \<and> (if SERVER_MODE cfg
                    then \<exists>rc r. room_of_socket st sid = Some (rc, r) \<and> (sock, ci) \<in> set (clients r)
                    else (sock, ci) \<in> set (connectedClients st))))"
  using bsl_set_drift_playback [of cfg sid data st c] bsl_set_drift_targets [of tgt p cfg sid data st]
  by blast

theorem drift_isolation_witness:
  "(ToSocket ''viewer1'', ''bsl-drift-update'',
      PDriftValues (updated_drifts ''V1'' ''0'' (-3) (clientDriftValues example_room)))
     \<in> set (snd (bsl_set_drift server_config ''admin1'' (Some (drift_event ''V1'' 0 (-3)))
                   example_server))
   \<and> map_option fingerprint (map_of (clients example_room) ''viewer1'') = Some (Some ''V1'')
   \<and> map_option fingerprint (map_of (clients example_room) ''viewer2'') = Some (Some ''V2'')
   \<and> (ToSocket ''viewer2'', ''bsl-drift-update'',
      PDriftValues (updated_drifts ''V1'' ''0'' (-3) (clientDriftValues example_room)))
     \<notin> set (snd (bsl_set_drift server_config ''admin1'' (Some (drift_event ''V1'' 0 (-3)))
                   example_server))
   \<and> playback_of (fst (bsl_set_drift server_config ''admin1'' (Some (drift_event ''V1'' 0 (-3)))
                         example_server)) ''ABC234''
      = playback_of example_server ''ABC234''"
  using drift_isolation [of server_config "''admin1''" "Some (drift_event ''V1'' 0 (-3))"
      example_server "''ABC234''" "ToSocket ''viewer1''"
      "PDriftValues (updated_drifts ''V1'' ''0'' (-3) (clientDriftValues example_room))"]
  by (simp add: bsl_set_drift_example) (simp add: example_room_def)

section \<open>Local-file matching\<close>

lemma digit_val_digit_char: "d < 10 \<Longrightarrow> digit_val (digit_char d) = d"
proof -
  assume "d < 10"
  then have "d \<in> {0, 1, 2, 3, 4, 5, 6, 7, 8, 9}" by auto
  then show ?thesis
    by (auto simp: digit_val_def digit_char_def)
qed

lemma dec_value_snoc: "dec_value (ds @ [c]) = 10 * dec_value ds + digit_val c"
  by (simp add: dec_value_def)

lemma dec_value_dec_string: "dec_value (dec_string n) = n"
proof (induction n rule: dec_string.induct)
  case (1 n)
  show ?case
  proof (cases "n < 10")
    case True
    then show ?thesis
      using dec_value_snoc [of "[]" "digit_char n"]
      by (simp add: dec_string.simps [of n] digit_val_digit_char dec_value_def)
  next
    case False
    then have "dec_value (dec_string (n div 10)) = n div 10" using 1 by simp
    with False show ?thesis
      by (simp add: dec_string.simps [of n] dec_value_snoc digit_val_digit_char)
  qed
qed

lemma dec_string_inj: "dec_string i = dec_string j \<Longrightarrow> i = j"
  by (metis dec_value_dec_string)

lemma set_AList_update:
  "(k', v') \<in> set (AList.update k v al) \<Longrightarrow> (k', v') = (k, v) \<or> (k', v') \<in> set al"
  by (induction al) (auto split: if_splits)

lemma fold_match_step_fault:
  "fold (match_step cfg statSize cm cf) ps (Inl e) = Inl e"
  by (induction ps) (simp_all add: match_step_def)

lemma fold_match_step_entries:
  "fold (match_step cfg statSize cm cf) ps (Inr m) = Inr m' \<Longrightarrow> (k, f) \<in> set m' \<Longrightarrow>
   (k, f) \<in> set m
   \<or> (\<exists>p\<in>set ps. k = dec_string (fst p) \<and> f = file_name cf
          \<and> file_matches cfg statSize cm cf (snd p) = Inr True)"
proof (induction ps arbitrary: m)
  case Nil
  then show ?case by simp
next
  case (Cons p ps)
  show ?case
  proof (cases "file_matches cfg statSize cm cf (snd p)")
    case (Inl e)
    then have "match_step cfg statSize cm cf p (Inr m) = Inl e"
      by (simp add: match_step_def)
    with Cons.prems(1) show ?thesis
      by (simp add: fold_match_step_fault)
  next
    case (Inr b)
    let ?m = "if b then AList.update (dec_string (fst p)) (file_name cf) m else m"
    from Inr have "match_step cfg statSize cm cf p (Inr m) = Inr ?m"
      by (simp add: match_step_def)
    with Cons.prems(1) have "fold (match_step cfg statSize cm cf) ps (Inr ?m) = Inr m'"
      by simp
    from Cons.IH [OF this Cons.prems(2)] Inr show ?thesis
      by (auto split: if_splits dest: set_AList_update)
  qed
qed

lemma match_one_file_fault: "match_one_file cfg statSize cm vids cf (Inl e) = Inl e"
  by (simp add: match_one_file_def fold_match_step_fault)

lemma match_one_file_entries:
  assumes "match_one_file cfg statSize cm vids cf (Inr m) = Inr m'" "(k, f) \<in> set m'"
  shows "(k, f) \<in> set m
         \<or> (\<exists>i<length vids. k = dec_string i \<and> f = file_name cf
               \<and> file_matches cfg statSize cm cf (vids ! i) = Inr True)"
  using fold_match_step_entries [of cfg statSize cm cf "enumerate 0 vids" m m' k f] assms
  by (auto simp: match_one_file_def in_set_enumerate_eq)

lemma fold_match_one_file_fault:
  "fold (match_one_file cfg statSize cm vids) fs (Inl e) = Inl e"
  by (induction fs) (simp_all add: match_one_file_fault)

lemma fold_match_entries:
  "fold (match_one_file cfg statSize cm vids) fs (Inr m) = Inr m' \<Longrightarrow> (k, f) \<in> set m' \<Longrightarrow>
   (k, f) \<in> set m
   \<or> (\<exists>i<length vids. k = dec_string i
         \<and> (\<exists>cf\<in>set fs. file_name cf = f \<and> file_matches cfg statSize cm cf (vids ! i) = Inr True))"
proof (induction fs arbitrary: m)
  case Nil
  then show ?case by simp
next
  case (Cons cf fs)
  show ?case
  proof (cases "match_one_file cfg statSize cm vids cf (Inr m)")
    case (Inl e)
    with Cons.prems(1) show ?thesis
      by (simp add: fold_match_one_file_fault)
  next
    case (Inr m1)
    with Cons.prems(1) have "fold (match_one_file cfg statSize cm vids) fs (Inr m1) = Inr m'"
      by simp
    from Cons.IH [OF this Cons.prems(2)] match_one_file_entries [OF Inr, of k f]
    show ?thesis by auto
  qed
qed

lemma auto_match_entries:
  "auto_match cfg statSize cm vids fs = Inr m' \<Longrightarrow> (k, f) \<in> set m' \<Longrightarrow>
   \<exists>i<length vids. k = dec_string i
     \<and> (\<exists>cf\<in>set fs. file_name cf = f \<and> file_matches cfg statSize cm cf (vids ! i) = Inr True)"
  using fold_match_entries [of cfg statSize cm vids fs "[]" m' k f]
  by (auto simp: auto_match_def split: if_splits)

lemma fold_match_step_returns:
  "\<forall>p\<in>set ps. \<exists>b. file_matches cfg statSize cm cf (snd p) = Inr b \<Longrightarrow>
   \<exists>m'. fold (match_step cfg statSize cm cf) ps (Inr m) = Inr m'"
proof (induction ps arbitrary: m)
  case Nil
  then show ?case by simp
next
  case (Cons p ps)
  from Cons.prems obtain b where b: "file_matches cfg statSize cm cf (snd p) = Inr b"
    by auto
  from Cons.prems have "\<forall>p\<in>set ps. \<exists>b. file_matches cfg statSize cm cf (snd p) = Inr b"
    by simp
  moreover from b have "match_step cfg statSize cm cf p (Inr m)
      = Inr (if b then AList.update (dec_string (fst p)) (file_name cf) m else m)"
    by (simp add: match_step_def)
  ultimately show ?case
    using Cons.IH by simp
qed

lemma match_one_file_returns:
  assumes "\<forall>v\<in>set vids. \<exists>b. file_matches cfg statSize cm cf v = Inr b"
  shows "\<exists>m'. match_one_file cfg statSize cm vids cf (Inr m) = Inr m'"
proof -
  have "\<forall>p\<in>set (enumerate 0 vids). \<exists>b. file_matches cfg statSize cm cf (snd p) = Inr b"
    using assms by (auto simp: in_set_enumerate_eq)
  from fold_match_step_returns [OF this] show ?thesis
    by (simp add: match_one_file_def)
qed

lemma fold_match_one_file_returns:
  "\<forall>cf\<in>set fs. \<forall>v\<in>set vids. \<exists>b. file_matches cfg statSize cm cf v = Inr b \<Longrightarrow>
   \<exists>m'. fold (match_one_file cfg statSize cm vids) fs (Inr m) = Inr m'"
proof (induction fs arbitrary: m)
  case Nil
  then show ?case by simp
next
  case (Cons cf fs)
  from Cons.prems have "\<forall>v\<in>set vids. \<exists>b. file_matches cfg statSize cm cf v = Inr b"
    by simp
  from match_one_file_returns [OF this] obtain m1 where
    m1: "match_one_file cfg statSize cm vids cf (Inr m) = Inr m1" by blast
  from Cons.prems have "\<forall>cf\<in>set fs. \<forall>v\<in>set vids. \<exists>b. file_matches cfg statSize cm cf v = Inr b"
    by simp
  from Cons.IH [OF this] m1 show ?case by simp
qed

lemma auto_match_returns:
  "\<forall>cf\<in>set fs. \<forall>v\<in>set vids. \<exists>b. file_matches cfg statSize cm cf v = Inr b \<Longrightarrow>
   \<exists>m'. auto_match cfg statSize cm vids fs = Inr m'"
  using fold_match_one_file_returns [of fs vids cfg statSize cm "[]"]
  by (simp add: auto_match_def)

lemma matchScore_returns:
  "serverExt v \<notin> set Object_prototype_names \<Longrightarrow> \<exists>n. matchScore statSize cf v = Inr n"
  by (simp add: matchScore_def mime_matches_def Let_def split: option.splits)

lemma file_matches_returns:
  assumes "BSL_ADVANCED_MATCH cfg \<longrightarrow> serverExt v \<notin> set Object_prototype_names"
  shows "\<exists>b. file_matches cfg statSize (Table m) cf v = Inr b"
proof (cases "BSL_ADVANCED_MATCH cfg")
  case True
  with assms obtain n where "matchScore statSize cf v = Inr n"
    using matchScore_returns by blast
  then show ?thesis
    by (auto simp: file_matches_def persistent_match_def)
next
  case False
  then show ?thesis
    by (auto simp: file_matches_def persistent_match_def)
qed

lemma clientMatches_of_table:
  "cid \<notin> set Object_prototype_names \<or> cid = ''__proto__'' \<or> persistentBslMatches st cid \<noteq> None
   \<Longrightarrow> \<exists>m. clientMatches_of st cid = Table m"
  by (auto simp: clientMatches_of_def split: option.splits)

lemma file_matches_justified:
  assumes "file_matches cfg statSize (clientMatches_of st cid) cf v = Inr True"
  shows "match_justified cfg statSize st cid cf v"
proof (cases "clientMatches_of st cid")
  case (BuiltinMethod c)
  with assms show ?thesis
    by (auto simp: file_matches_def persistent_match_def match_justified_def score_reached_def
          split: sum.splits if_splits)
next
  case (Table m)
  show ?thesis
  proof (cases "m (toLowerCase (file_name cf)) = Some (toLowerCase (filename v))")
    case True
    with Table have "remembered st cid (file_name cf) = Some (toLowerCase (filename v))"
      by (auto simp: clientMatches_of_def remembered_def split: option.splits if_splits)
    then show ?thesis by (simp add: match_justified_def)
  next
    case False
    with assms Table show ?thesis
      by (auto simp: file_matches_def persistent_match_def match_justified_def score_reached_def
            split: sum.splits if_splits)
  qed
qed

lemma folder_status_entries:
  assumes "folder_status cfg statSize st sid d pl = Inr status"
  shows "clientId status = reporting_id sid d \<and> files status = fd_files d
         \<and> (\<forall>k f. map_of (matchedVideos status) k = Some f
               \<longrightarrow> (\<exists>i<length (videos pl). k = dec_string i
                      \<and> (\<exists>cf\<in>set (fd_files d). file_name cf = f
                            \<and> match_justified cfg statSize st (reporting_id sid d) cf
                                 (videos pl ! i))))"
proof -
  from assms obtain matched where
    m: "auto_match cfg statSize (clientMatches_of st (reporting_id sid d)) (videos pl) (fd_files d)
          = Inr matched"
    and s: "matchedVideos status = matched" "clientId status = reporting_id sid d"
           "files status = fd_files d"
    by (auto simp: folder_status_def Let_def split: sum.splits)
  have "\<exists>i<length (videos pl). k = dec_string i
          \<and> (\<exists>cf\<in>set (fd_files d). file_name cf = f
                \<and> match_justified cfg statSize st (reporting_id sid d) cf (videos pl ! i))"
    if "map_of (matchedVideos status) k = Some f" for k f
  proof -
    from that s(1) have "(k, f) \<in> set matched" by (auto dest: map_of_SomeD)
    from auto_match_entries [OF m this] show ?thesis
      using file_matches_justified by blast
  qed
  with s show ?thesis by blast
qed

lemma folder_status_returns:
  assumes "reporting_id sid d \<notin> set Object_prototype_names"
      and "BSL_ADVANCED_MATCH cfg \<longrightarrow> (\<forall>v\<in>set (videos pl). serverExt v \<notin> set Object_prototype_names)"
  shows "\<exists>status. folder_status cfg statSize st sid d pl = Inr status"
proof -
  from assms(1) obtain m where m: "clientMatches_of st (reporting_id sid d) = Table m"
    using clientMatches_of_table by blast
  have "\<forall>cf\<in>set (fd_files d). \<forall>v\<in>set (videos pl).
          \<exists>b. file_matches cfg statSize (Table m) cf v = Inr b"
    using assms(2) file_matches_returns by blast
  from auto_match_returns [OF this] m show ?thesis
    by (auto simp: folder_status_def Let_def)
qed

lemma report_stored:
  assumes "SERVER_MODE cfg" "room_of_socket st sid = Some (rc, r)"
      and "bsl_folder_selected cfg statSize sid d st = Inr (st', out)"
  shows "\<exists>status. folder_status cfg statSize st sid d (playlist r) = Inr status
           \<and> rooms st' (toUpperCase rc)
               = Some (r\<lparr>clientBslStatus := AList.update sid status (clientBslStatus r)\<rparr>)
           \<and> (\<forall>c. c \<noteq> toUpperCase rc \<longrightarrow> rooms st' c = rooms st c)
           \<and> persistentBslMatches st' = persistentBslMatches st"
  using assms
  by (auto simp: bsl_folder_selected_def Let_def put_room_def split: sum.splits)

lemma report_stored_legacy:
  assumes "\<not> SERVER_MODE cfg"
      and "bsl_folder_selected cfg statSize sid d st = Inr (st', out)"
  shows "\<exists>status. folder_status cfg statSize st sid d (PLAYLIST st) = Inr status
           \<and> g_clientBslStatus st' = AList.update sid status (g_clientBslStatus st)
           \<and> PLAYLIST st' = PLAYLIST st
           \<and> persistentBslMatches st' = persistentBslMatches st"
  using assms
  by (auto simp: bsl_folder_selected_def Let_def split: sum.splits)

lemma report_returns:
  assumes "folder_status cfg statSize st sid d
             (if SERVER_MODE cfg then (case room_of_socket st sid of
                                         Some (rc, r) \<Rightarrow> playlist r | None \<Rightarrow> PLAYLIST st)
              else PLAYLIST st) = Inr status"
  shows "\<exists>st' out. bsl_folder_selected cfg statSize sid d st = Inr (st', out)"
  using assms
  by (auto simp: bsl_folder_selected_def Let_def split: option.splits)

lemma proto_is_prototype_name: "''__proto__'' \<in> set Object_prototype_names"
  by (simp add: Object_prototype_names_def)

lemma setBslMatch_ordinary:
  assumes "cid \<notin> set Object_prototype_names" "k \<noteq> ''__proto__''"
  shows "\<exists>pm' m'. setBslMatch cid k v pm = Inr pm' \<and> pm' cid = Some m' \<and> m' k = Some v
           \<and> (\<forall>c. c \<noteq> cid \<longrightarrow> pm' c = pm c)"
  using assms proto_is_prototype_name
  by (cases "pm cid") (auto simp: setBslMatch_def assign_def)

lemma manual_match_update_valid:
  assumes "map_of bsl (mm_clientSocketId md) = Some cs"
      and "video_at (videos pl) (mm_playlistIndex md) = Some v"
      and "clientId cs \<noteq> []" "clientId cs \<notin> set Object_prototype_names"
      and "toLowerCase (mm_clientFileName md) \<noteq> ''__proto__''"
  shows "\<exists>pm' m'. manual_match_update md bsl pl pm
           = Inr (Some (AList.update (mm_clientSocketId md)
                          (cs\<lparr>matchedVideos := AList.update (int_key (mm_playlistIndex md))
                                 (mm_clientFileName md) (matchedVideos cs)\<rparr>) bsl,
                        pm',
                        cs\<lparr>matchedVideos := AList.update (int_key (mm_playlistIndex md))
                                 (mm_clientFileName md) (matchedVideos cs)\<rparr>))
           \<and> pm' (clientId cs) = Some m'
           \<and> m' (toLowerCase (mm_clientFileName md)) = Some (toLowerCase (filename v))"
proof -
  from setBslMatch_ordinary [OF assms(4,5), of "toLowerCase (filename v)" pm]
  obtain pm' m' where "setBslMatch (clientId cs) (toLowerCase (mm_clientFileName md))
                         (toLowerCase (filename v)) pm = Inr pm'"
      "pm' (clientId cs) = Some m'"
      "m' (toLowerCase (mm_clientFileName md)) = Some (toLowerCase (filename v))"
    by blast
  with assms(1-3) show ?thesis
    by (simp add: manual_match_update_def Let_def)
qed

text \<open>
  Claim C8, amended.  When \<open>bsl-folder-selected\<close> returns, the match map that it stores for
  the reporting viewer satisfies, with respect to the playlist at the time of the report:
  every entry has a valid index \<open>i\<close> and the name \<open>f\<close> of a reported file for which the
  match memory of the viewer's id maps \<open>f\<close> to the file name of item \<open>i\<close> (lower case
  both), or advanced matching is on and the score reaches the threshold, or it is off and
  the names are equal up to case.  The handler returns when the viewer's id names no property
  of \<open>Object.prototype\<close> and, with advanced matching, no extension of a playlist item
  does.  A manual match by the admin to a valid index \<open>i\<close>, for a viewer whose id names no
  property of \<open>Object.prototype\<close> and a file other than \<open>__proto__\<close>, stores the entry
  and records \<open>f\<close> and the file name of item \<open>i\<close> in the match memory.  All this holds
  of a server whose built-in objects have not been written to.
\<close>

theorem stored_matches_justified:
  "(SERVER_MODE cfg \<and> room_of_socket st sid = Some (rc, r)
      \<and> bsl_folder_selected cfg statSize sid d st = Inr (st', out)
     \<longrightarrow> (\<exists>r' status.
            rooms st' (toUpperCase rc) = Some r' \<and> playlist r' = playlist r
            \<and> map_of (clientBslStatus r') sid = Some status
            \<and> clientId status = reporting_id sid d \<and> files status = fd_files d
            \<and> (\<forall>k f. map_of (matchedVideos status) k = Some f
                  \<longrightarrow> (\<exists>i<length (videos (playlist r)). k = dec_string i
                         \<and> (\<exists>cf\<in>set (fd_files d). file_name cf = f
                               \<and> match_justified cfg statSize st (reporting_id sid d) cf
                                    (videos (playlist r) ! i))))))
   \<and> (SERVER_MODE cfg \<and> room_of_socket st sid = Some (rc, r)
      \<and> reporting_id sid d \<notin> set Object_prototype_names
      \<and> (BSL_ADVANCED_MATCH cfg
           \<longrightarrow> (\<forall>v\<in>set (videos (playlist r)). serverExt v \<notin> set Object_prototype_names))
     \<longrightarrow> (\<exists>st' out. bsl_folder_selected cfg statSize sid d st = Inr (st', out)))
   \<and> (\<not> SERVER_MODE cfgl
      \<and> bsl_folder_selected cfgl statSize sidl dl stl = Inr (stl', outl)
     \<longrightarrow> (\<exists>status.
            PLAYLIST stl' = PLAYLIST stl
            \<and> map_of (g_clientBslStatus stl') sidl = Some status
            \<and> clientId status = reporting_id sidl dl \<and> files status = fd_files dl
            \<and> (\<forall>k f. map_of (matchedVideos status) k = Some f
                  \<longrightarrow> (\<exists>i<length (videos (PLAYLIST stl)). k = dec_string i
                         \<and> (\<exists>cf\<in>set (fd_files dl). file_name cf = f
                               \<and> match_justified cfgl statSize stl (reporting_id sidl dl) cf
                                    (videos (PLAYLIST stl) ! i))))))
   \<and> (\<not> SERVER_MODE cfgl
      \<and> reporting_id sidl dl \<notin> set Object_prototype_names
      \<and> (BSL_ADVANCED_MATCH cfgl
           \<longrightarrow> (\<forall>v\<in>set (videos (PLAYLIST stl)). serverExt v \<notin> set Object_prototype_names))
     \<longrightarrow> (\<exists>st' out. bsl_folder_selected cfgl statSize sidl dl stl = Inr (st', out)))
   \<and> (SERVER_MODE cfgm \<and> room_of_socket stm sidm = Some (rcm, rm)
      \<and> adminSocketId rm = Some sidm
      \<and> map_of (clientBslStatus rm) (mm_clientSocketId md) = Some cs
      \<and> video_at (videos (playlist rm)) (mm_playlistIndex md) = Some v
      \<and> clientId cs \<noteq> [] \<and> clientId cs \<notin> set Object_prototype_names
      \<and> toLowerCase (mm_clientFileName md) \<noteq> ''__proto__''
     \<longrightarrow> (\<exists>st' out r' status'.
            bsl_manual_match cfgm sidm md stm = Inr (st', out)
            \<and> rooms st' (toUpperCase rcm) = Some r'
            \<and> map_of (clientBslStatus r') (mm_clientSocketId md) = Some status'
            \<and> clientId status' = clientId cs
            \<and> map_of (matchedVideos status') (int_key (mm_playlistIndex md))
                = Some (mm_clientFileName md)
            \<and> remembered st' (clientId cs) (mm_clientFileName md)
                = Some (toLowerCase (filename v))))
   \<and> (\<not> SERVER_MODE cfgn
      \<and> map_of (g_clientBslStatus stn) (mm_clientSocketId mdn) = Some csn
      \<and> video_at (videos (PLAYLIST stn)) (mm_playlistIndex mdn) = Some vn
      \<and> clientId csn \<noteq> [] \<and> clientId csn \<notin> set Object_prototype_names
      \<and> toLowerCase (mm_clientFileName mdn) \<noteq> ''__proto__''
     \<longrightarrow> (\<exists>st' out status'.
            bsl_manual_match cfgn sidn mdn stn = Inr (st', out)
            \<and> map_of (g_clientBslStatus st') (mm_clientSocketId mdn) = Some status'
            \<and> clientId status' = clientId csn
            \<and> map_of (matchedVideos status') (int_key (mm_playlistIndex mdn))
                = Some (mm_clientFileName mdn)
            \<and> remembered st' (clientId csn) (mm_clientFileName mdn)
                = Some (toLowerCase (filename vn))))"
proof (intro conjI impI)
  assume a: "SERVER_MODE cfg \<and> room_of_socket st sid = Some (rc, r)
      \<and> bsl_folder_selected cfg statSize sid d st = Inr (st', out)"
  then obtain status where s: "folder_status cfg statSize st sid d (playlist r) = Inr status"
      "rooms st' (toUpperCase rc)
         = Some (r\<lparr>clientBslStatus := AList.update sid status (clientBslStatus r)\<rparr>)"
    using report_stored by blast
  let ?r = "r\<lparr>clientBslStatus := AList.update sid status (clientBslStatus r)\<rparr>"
  have "playlist ?r = playlist r" "map_of (clientBslStatus ?r) sid = Some status"
    by (simp_all add: update_conv')
  with s(2) folder_status_entries [OF s(1)]
  show "\<exists>r' status.
            rooms st' (toUpperCase rc) = Some r' \<and> playlist r' = playlist r
            \<and> map_of (clientBslStatus r') sid = Some status
            \<and> clientId status = reporting_id sid d \<and> files status = fd_files d
            \<and> (\<forall>k f. map_of (matchedVideos status) k = Some f
                  \<longrightarrow> (\<exists>i<length (videos (playlist r)). k = dec_string i
                         \<and> (\<exists>cf\<in>set (fd_files d). file_name cf = f
                               \<and> match_justified cfg statSize st (reporting_id sid d) cf
                                    (videos (playlist r) ! i))))"
    by blast
next
  assume a: "SERVER_MODE cfg \<and> room_of_socket st sid = Some (rc, r)
      \<and> reporting_id sid d \<notin> set Object_prototype_names
      \<and> (BSL_ADVANCED_MATCH cfg
           \<longrightarrow> (\<forall>v\<in>set (videos (playlist r)). serverExt v \<notin> set Object_prototype_names))"
  then obtain status where "folder_status cfg statSize st sid d (playlist r) = Inr status"
    using folder_status_returns by blast
  with a show "\<exists>st' out. bsl_folder_selected cfg statSize sid d st = Inr (st', out)"
    using report_returns [of cfg statSize st sid d status] by simp
next
  assume a: "\<not> SERVER_MODE cfgl
      \<and> bsl_folder_selected cfgl statSize sidl dl stl = Inr (stl', outl)"
  then obtain status where s: "folder_status cfgl statSize stl sidl dl (PLAYLIST stl) = Inr status"
      "g_clientBslStatus stl' = AList.update sidl status (g_clientBslStatus stl)"
      "PLAYLIST stl' = PLAYLIST stl"
    using report_stored_legacy by blast
  have "map_of (g_clientBslStatus stl') sidl = Some status"
    by (simp add: s(2) update_conv')
  with s(3) folder_status_entries [OF s(1)]
  show "\<exists>status.
            PLAYLIST stl' = PLAYLIST stl
            \<and> map_of (g_clientBslStatus stl') sidl = Some status
            \<and> clientId status = reporting_id sidl dl \<and> files status = fd_files dl
            \<and> (\<forall>k f. map_of (matchedVideos status) k = Some f
                  \<longrightarrow> (\<exists>i<length (videos (PLAYLIST stl)). k = dec_string i
                         \<and> (\<exists>cf\<in>set (fd_files dl). file_name cf = f
                               \<and> match_justified cfgl statSize stl (reporting_id sidl dl) cf
                                    (videos (PLAYLIST stl) ! i))))"
    by blast
next
  assume a: "\<not> SERVER_MODE cfgl
      \<and> reporting_id sidl dl \<notin> set Object_prototype_names
      \<and> (BSL_ADVANCED_MATCH cfgl
           \<longrightarrow> (\<forall>v\<in>set (videos (PLAYLIST stl)). serverExt v \<notin> set Object_prototype_names))"
  then obtain status where "folder_status cfgl statSize stl sidl dl (PLAYLIST stl) = Inr status"
    using folder_status_returns by blast
  with a show "\<exists>st' out. bsl_folder_selected cfgl statSize sidl dl stl = Inr (st', out)"
    using report_returns [of cfgl statSize stl sidl dl status] by simp
next
  assume a: "SERVER_MODE cfgm \<and> room_of_socket stm sidm = Some (rcm, rm)
      \<and> adminSocketId rm = Some sidm
      \<and> map_of (clientBslStatus rm) (mm_clientSocketId md) = Some cs
      \<and> video_at (videos (playlist rm)) (mm_playlistIndex md) = Some v
      \<and> clientId cs \<noteq> [] \<and> clientId cs \<notin> set Object_prototype_names
      \<and> toLowerCase (mm_clientFileName md) \<noteq> ''__proto__''"
  let ?status = "cs\<lparr>matchedVideos := AList.update (int_key (mm_playlistIndex md))
                                 (mm_clientFileName md) (matchedVideos cs)\<rparr>"
  let ?bsl = "AList.update (mm_clientSocketId md) ?status (clientBslStatus rm)"
  from a manual_match_update_valid [of "clientBslStatus rm" md cs "playlist rm" v
      "persistentBslMatches stm"]
  obtain pm' m' where u: "manual_match_update md (clientBslStatus rm) (playlist rm)
                            (persistentBslMatches stm) = Inr (Some (?bsl, pm', ?status))"
      "pm' (clientId cs) = Some m'"
      "m' (toLowerCase (mm_clientFileName md)) = Some (toLowerCase (filename v))"
    by blast
  let ?st = "(put_room rcm (rm\<lparr>clientBslStatus := ?bsl\<rparr>) stm)\<lparr>persistentBslMatches := pm'\<rparr>"
  from a u(1) have "bsl_manual_match cfgm sidm md stm
      = Inr (?st, (ToSocket (mm_clientSocketId md), ''bsl-match-result'',
                    match_result ?status (playlist rm))
                  # sendBslStatusToAdmin cfgm ?st (Some rcm))"
    by (simp add: bsl_manual_match_def Let_def)
  moreover have "rooms ?st (toUpperCase rcm) = Some (rm\<lparr>clientBslStatus := ?bsl\<rparr>)"
    by (simp add: put_room_def)
  moreover have "map_of (clientBslStatus (rm\<lparr>clientBslStatus := ?bsl\<rparr>)) (mm_clientSocketId md)
                  = Some ?status"
    by (simp add: update_conv')
  moreover have "clientId ?status = clientId cs" by simp
  moreover have "map_of (matchedVideos ?status) (int_key (mm_playlistIndex md))
                  = Some (mm_clientFileName md)"
    by (simp add: update_conv')
  moreover have "remembered ?st (clientId cs) (mm_clientFileName md)
                  = Some (toLowerCase (filename v))"
    using u(2,3) by (simp add: remembered_def)
  ultimately show "\<exists>st' out r' status'.
            bsl_manual_match cfgm sidm md stm = Inr (st', out)
            \<and> rooms st' (toUpperCase rcm) = Some r'
            \<and> map_of (clientBslStatus r') (mm_clientSocketId md) = Some status'
            \<and> clientId status' = clientId cs
            \<and> map_of (matchedVideos status') (int_key (mm_playlistIndex md))
                = Some (mm_clientFileName md)
            \<and> remembered st' (clientId cs) (mm_clientFileName md)
                = Some (toLowerCase (filename v))"
    by blast
next
  assume a: "\<not> SERVER_MODE cfgn
      \<and> map_of (g_clientBslStatus stn) (mm_clientSocketId mdn) = Some csn
      \<and> video_at (videos (PLAYLIST stn)) (mm_playlistIndex mdn) = Some vn
      \<and> clientId csn \<noteq> [] \<and> clientId csn \<notin> set Object_prototype_names
      \<and> toLowerCase (mm_clientFileName mdn) \<noteq> ''__proto__''"
  let ?status = "csn\<lparr>matchedVideos := AList.update (int_key (mm_playlistIndex mdn))
                                 (mm_clientFileName mdn) (matchedVideos csn)\<rparr>"
  let ?bsl = "AList.update (mm_clientSocketId mdn) ?status (g_clientBslStatus stn)"
  from a manual_match_update_valid [of "g_clientBslStatus stn" mdn csn "PLAYLIST stn" vn
      "persistentBslMatches stn"]
  obtain pm' m' where u: "manual_match_update mdn (g_clientBslStatus stn) (PLAYLIST stn)
                            (persistentBslMatches stn) = Inr (Some (?bsl, pm', ?status))"
      "pm' (clientId csn) = Some m'"
      "m' (toLowerCase (mm_clientFileName mdn)) = Some (toLowerCase (filename vn))"
    by blast
  let ?st = "stn\<lparr>g_clientBslStatus := ?bsl, persistentBslMatches := pm'\<rparr>"
  from a u(1) have "bsl_manual_match cfgn sidn mdn stn
      = Inr (?st, (ToSocket (mm_clientSocketId mdn), ''bsl-match-result'',
                    match_result ?status (PLAYLIST stn))
                  # sendBslStatusToAdmin cfgn ?st None)"
    by (simp add: bsl_manual_match_def Let_def)
  moreover have "map_of (g_clientBslStatus ?st) (mm_clientSocketId mdn) = Some ?status"
    by (simp add: update_conv')
  moreover have "clientId ?status = clientId csn" by simp
  moreover have "map_of (matchedVideos ?status) (int_key (mm_playlistIndex mdn))
                  = Some (mm_clientFileName mdn)"
    by (simp add: update_conv')
  moreover have "remembered ?st (clientId csn) (mm_clientFileName mdn)
                  = Some (toLowerCase (filename vn))"
    using u(2,3) by (simp add: remembered_def)
  ultimately show "\<exists>st' out status'.
            bsl_manual_match cfgn sidn mdn stn = Inr (st', out)
            \<and> map_of (g_clientBslStatus st') (mm_clientSocketId mdn) = Some status'
            \<and> clientId status' = clientId csn
            \<and> map_of (matchedVideos status') (int_key (mm_playlistIndex mdn))
                = Some (mm_clientFileName mdn)
            \<and> remembered st' (clientId csn) (mm_clientFileName mdn)
                = Some (toLowerCase (filename vn))"
    by blast
qed

lemma strict_config_flags:
  "SERVER_MODE strict_config" "BSL_ADVANCED_MATCH strict_config"
  "BSL_ADVANCED_MATCH_THRESHOLD strict_config = 3"
  "\<not> SERVER_MODE legacy_strict" "BSL_ADVANCED_MATCH legacy_strict"
  by (simp_all add: strict_config_def legacy_strict_def server_config_def)

lemma server_after_launch_eq:
  "server_after_launch = example_server\<lparr> rooms := [''ABC234'' \<mapsto> launched_room] \<rparr>"
proof -
  have a: "adminSocketId example_room = Some ''admin1''"
    by (simp add: example_room_def)
  have "server_after_launch = put_room ''ABC234'' launched_room example_server"
    by (simp add: server_after_launch_def set_playlist_def room_of_socket_example
          strict_config_flags a launched_room_def split_beta Let_def)
  then show ?thesis
    by (simp add: put_room_def toUpperCase_ABC234 example_server_def)
qed

lemma launched_room_playlist: "videos (playlist launched_room) = [movie_item]"
  by (simp add: launched_room_def set_playlist_state_def launch_def movie_item_def Let_def)

lemma room_of_socket_launched:
  "room_of_socket server_after_launch ''viewer1'' = Some (''ABC234'', launched_room)"
  "room_of_socket server_after_launch ''admin1'' = Some (''ABC234'', launched_room)"
  by (simp_all add: server_after_launch_eq room_of_socket_def getRoom_def toUpperCase_ABC234
        example_server_def)

lemma movie_score: "matchScore example_statSize movie_file movie_item = Inr 4"
  by code_simp

lemma movie_ext: "serverExt movie_item \<notin> set Object_prototype_names"
  by code_simp

lemma viewer_id: "reporting_id ''viewer1'' viewer_report = ''V1''"
  "''V1'' \<notin> set Object_prototype_names" "fd_files viewer_report = [movie_file]"
  by (simp_all add: reporting_id_def viewer_report_def Object_prototype_names_def movie_file_def)

lemma folder_status_example:
  "folder_status strict_config example_statSize server_after_launch ''viewer1'' viewer_report
     (playlist launched_room) = Inr reported_status"
proof -
  have c: "clientMatches_of server_after_launch ''V1'' = Table Map.empty"
    by (simp add: clientMatches_of_def server_after_launch_eq example_server_def boot_def
          Object_prototype_names_def)
  have f: "file_matches strict_config example_statSize (Table Map.empty) movie_file movie_item
           = Inr True"
    by (simp add: file_matches_def persistent_match_def movie_score strict_config_flags)
  have "auto_match strict_config example_statSize (Table Map.empty) [movie_item] [movie_file]
        = Inr [(''0'', ''movie.mkv'')]"
  proof -
    have n: "file_name movie_file = ''movie.mkv''" by (simp add: movie_file_def)
    show ?thesis
      by (simp add: auto_match_def match_one_file_def match_step_def f dec_string_0 n)
  qed
  moreover have "fd_clientName viewer_report = None"
    by (simp add: viewer_report_def)
  ultimately show ?thesis
    by (simp add: folder_status_def viewer_id c launched_room_playlist Let_def
          reported_status_def)
qed

lemma report_example_state:
  "bsl_folder_selected strict_config example_statSize ''viewer1'' viewer_report
     server_after_launch
   = Inr (put_room ''ABC234'' reported_room server_after_launch,
          sendBslStatusToAdmin strict_config
            (put_room ''ABC234'' reported_room server_after_launch) (Some ''ABC234'')
          @ [(ToSocket ''viewer1'', ''bsl-match-result'',
              match_result reported_status (playlist launched_room))])"
proof -
  have "clientBslStatus launched_room = []"
    by (simp add: launched_room_def example_room_def Room_def)
  then show ?thesis
    by (simp add: bsl_folder_selected_def strict_config_flags room_of_socket_launched
          folder_status_example reported_room_def Let_def)
qed

lemma report_example:
  "bsl_folder_selected strict_config example_statSize ''viewer1'' viewer_report
     server_after_launch = Inr (server_after_report, report_emits)"
  by (simp add: server_after_report_def report_emits_def report_example_state)

lemma server_after_report_eq:
  "server_after_report = example_server\<lparr> rooms := [''ABC234'' \<mapsto> reported_room] \<rparr>"
proof -
  have "server_after_report = put_room ''ABC234'' reported_room server_after_launch"
    by (simp add: server_after_report_def report_example_state)
  then show ?thesis
    by (simp add: put_room_def toUpperCase_ABC234 server_after_launch_eq)
qed

lemma room_of_socket_reported:
  "room_of_socket server_after_report ''admin1'' = Some (''ABC234'', reported_room)"
  by (simp add: server_after_report_eq room_of_socket_def getRoom_def toUpperCase_ABC234
        example_server_def)

lemma reported_room_fields:
  "adminSocketId reported_room = Some ''admin1''"
  "map_of (clientBslStatus reported_room) ''viewer1'' = Some reported_status"
  "videos (playlist reported_room) = [movie_item]"
proof -
  show "adminSocketId reported_room = Some ''admin1''"
    by (simp add: reported_room_def launched_room_def example_room_def)
  show "map_of (clientBslStatus reported_room) ''viewer1'' = Some reported_status"
    by (simp add: reported_room_def)
  show "videos (playlist reported_room) = [movie_item]"
    by (simp add: reported_room_def launched_room_playlist)
qed

lemma manual_request_fields:
  "mm_clientSocketId manual_request = ''viewer1''" "mm_clientFileName manual_request = ''Film.mkv''"
  "mm_playlistIndex manual_request = 0"
  by (simp_all add: manual_request_def)

lemma reported_status_fields:
  "clientId reported_status = ''V1''" "matchedVideos reported_status = [(''0'', ''movie.mkv'')]"
  "files reported_status = [movie_file]"
  by (simp_all add: reported_status_def)

lemma film_key: "toLowerCase ''Film.mkv'' = ''film.mkv''" "toLowerCase ''Film.mkv'' \<noteq> ''__proto__''"
  "toLowerCase (filename movie_item) = ''movie.mkv''"
  by code_simp+

lemma legacy_after_launch_fields:
  "videos (PLAYLIST legacy_after_launch) = [movie_item]"
  "g_clientBslStatus legacy_after_launch = []"
  "persistentBslMatches legacy_after_launch = Map.empty"
  by (simp_all add: legacy_after_launch_def set_playlist_def strict_config_flags
        set_playlist_state_def launch_def movie_item_def legacy_server_def boot_def
        split_beta Let_def)

lemma folder_status_example_legacy:
  "folder_status legacy_strict example_statSize legacy_after_launch ''viewer1'' viewer_report
     (PLAYLIST legacy_after_launch) = Inr reported_status"
proof -
  have c: "clientMatches_of legacy_after_launch ''V1'' = Table Map.empty"
    by (simp add: clientMatches_of_def legacy_after_launch_fields Object_prototype_names_def)
  have t: "BSL_ADVANCED_MATCH_THRESHOLD legacy_strict = 3"
    by (simp add: legacy_strict_def strict_config_def)
  have f: "file_matches legacy_strict example_statSize (Table Map.empty) movie_file movie_item
           = Inr True"
    by (simp add: file_matches_def persistent_match_def movie_score strict_config_flags t)
  have n: "file_name movie_file = ''movie.mkv''" by (simp add: movie_file_def)
  have "auto_match legacy_strict example_statSize (Table Map.empty) [movie_item] [movie_file]
        = Inr [(''0'', ''movie.mkv'')]"
    by (simp add: auto_match_def match_one_file_def match_step_def f dec_string_0 n)
  moreover have "fd_clientName viewer_report = None"
    by (simp add: viewer_report_def)
  ultimately show ?thesis
    by (simp add: folder_status_def viewer_id c legacy_after_launch_fields Let_def
          reported_status_def)
qed

lemma report_example_legacy:
  "bsl_folder_selected legacy_strict example_statSize ''viewer1'' viewer_report
     legacy_after_launch
   = Inr (legacy_after_report,
          sendBslStatusToAdmin legacy_strict legacy_after_report None
          @ [(ToSocket ''viewer1'', ''bsl-match-result'',
              match_result reported_status (PLAYLIST legacy_after_launch))])"
  by (simp add: bsl_folder_selected_def strict_config_flags folder_status_example_legacy
        legacy_after_report_def legacy_after_launch_fields Let_def)

lemma legacy_after_report_fields:
  "videos (PLAYLIST legacy_after_report) = [movie_item]"
  "map_of (g_clientBslStatus legacy_after_report) ''viewer1'' = Some reported_status"
  by (simp_all add: legacy_after_report_def legacy_after_launch_fields)

lemma video_at_movie: "video_at [movie_item] 0 = Some movie_item"
  by (simp add: video_at_def)

theorem stored_matches_justified_witness:
  "SERVER_MODE strict_config \<and> BSL_ADVANCED_MATCH strict_config
   \<and> room_of_socket server_after_launch ''viewer1'' = Some (''ABC234'', launched_room)
   \<and> videos (playlist launched_room) = [movie_item]
   \<and> reporting_id ''viewer1'' viewer_report = ''V1''
   \<and> ''V1'' \<notin> set Object_prototype_names
   \<and> serverExt movie_item \<notin> set Object_prototype_names
   \<and> bsl_folder_selected strict_config example_statSize ''viewer1'' viewer_report
        server_after_launch = Inr (server_after_report, report_emits)
   \<and> match_at server_after_report (Some ''ABC234'') ''viewer1'' ''0'' = Some ''movie.mkv''
   \<and> match_justified strict_config example_statSize server_after_launch ''V1'' movie_file
        movie_item
   \<and> \<not> SERVER_MODE legacy_strict \<and> BSL_ADVANCED_MATCH legacy_strict
   \<and> videos (PLAYLIST legacy_after_launch) = [movie_item]
   \<and> after (bsl_folder_selected legacy_strict example_statSize ''viewer1'' viewer_report
               legacy_after_launch) = Some legacy_after_report
   \<and> match_at legacy_after_report None ''viewer1'' ''0'' = Some ''movie.mkv''
   \<and> match_justified legacy_strict example_statSize legacy_after_launch ''V1'' movie_file
        movie_item
   \<and> room_of_socket server_after_report ''admin1'' = Some (''ABC234'', reported_room)
   \<and> adminSocketId reported_room = Some ''admin1''
   \<and> map_of (clientBslStatus reported_room) (mm_clientSocketId manual_request)
        = Some reported_status
   \<and> video_at (videos (playlist reported_room)) (mm_playlistIndex manual_request)
        = Some movie_item
   \<and> clientId reported_status = ''V1''
   \<and> toLowerCase (mm_clientFileName manual_request) = ''film.mkv''
   \<and> manual_outcome (bsl_manual_match strict_config ''admin1'' manual_request
                        server_after_report) (Some ''ABC234'')
        = Some (Some ''Film.mkv'', Some ''movie.mkv'')
   \<and> map_of (g_clientBslStatus legacy_after_report) (mm_clientSocketId manual_request)
        = Some reported_status
   \<and> video_at (videos (PLAYLIST legacy_after_report)) (mm_playlistIndex manual_request)
        = Some movie_item
   \<and> manual_outcome (bsl_manual_match legacy_strict ''admin1'' manual_request
                        legacy_after_report) None
        = Some (Some ''Film.mkv'', Some ''movie.mkv'')"
proof -
  note T = stored_matches_justified [where cfg = strict_config and st = server_after_launch
      and sid = "''viewer1''" and rc = "''ABC234''" and r = launched_room
      and statSize = example_statSize and d = viewer_report and st' = server_after_report
      and out = report_emits
      and cfgl = legacy_strict and stl = legacy_after_launch and sidl = "''viewer1''"
      and dl = viewer_report and stl' = legacy_after_report
      and outl = "sendBslStatusToAdmin legacy_strict legacy_after_report None
          @ [(ToSocket ''viewer1'', ''bsl-match-result'',
              match_result reported_status (PLAYLIST legacy_after_launch))]"
      and cfgm = strict_config and stm = server_after_report and sidm = "''admin1''"
      and rcm = "''ABC234''" and rm = reported_room and md = manual_request
      and cs = reported_status and v = movie_item
      and cfgn = legacy_strict and stn = legacy_after_report and sidn = "''admin1''"
      and mdn = manual_request and csn = reported_status and vn = movie_item]
  note T1 = T [THEN conjunct1]
  note T2 = T [THEN conjunct2, THEN conjunct1]
  note T3 = T [THEN conjunct2, THEN conjunct2, THEN conjunct1]
  note T4 = T [THEN conjunct2, THEN conjunct2, THEN conjunct2, THEN conjunct1]
  note T5 = T [THEN conjunct2, THEN conjunct2, THEN conjunct2, THEN conjunct2, THEN conjunct1]
  note T6 = T [THEN conjunct2, THEN conjunct2, THEN conjunct2, THEN conjunct2, THEN conjunct2]
  have r: "rooms server_after_report ''ABC234'' = Some reported_room"
    by (simp add: server_after_report_eq)
  \<comment> \<open>the report, with rooms\<close>
  from T1 strict_config_flags(1) room_of_socket_launched(1) report_example
  obtain r' status where a:
      "rooms server_after_report ''ABC234'' = Some r'"
      "map_of (clientBslStatus r') ''viewer1'' = Some status"
      "\<And>k f. map_of (matchedVideos status) k = Some f \<Longrightarrow>
         \<exists>i<length (videos (playlist launched_room)). k = dec_string i
           \<and> (\<exists>cf\<in>set (fd_files viewer_report). file_name cf = f
                 \<and> match_justified strict_config example_statSize server_after_launch
                      (reporting_id ''viewer1'' viewer_report) cf
                      (videos (playlist launched_room) ! i))"
    by (auto simp: toUpperCase_ABC234)
  from a(1,2) r have s: "status = reported_status"
    by (simp add: reported_room_fields)
  have m1: "match_at server_after_report (Some ''ABC234'') ''viewer1'' ''0'' = Some ''movie.mkv''"
    by (simp add: match_at_def r reported_room_fields reported_status_fields)
  from a(3) [of "''0''" "''movie.mkv''"] s
  have j1: "match_justified strict_config example_statSize server_after_launch ''V1'' movie_file
              movie_item"
    by (auto simp: reported_status_fields launched_room_playlist viewer_id)
  have ret: "\<exists>st' out. bsl_folder_selected strict_config example_statSize ''viewer1''
               viewer_report server_after_launch = Inr (st', out)"
    using T2 strict_config_flags room_of_socket_launched(1) viewer_id movie_ext
    by (simp add: launched_room_playlist)
  \<comment> \<open>the report, legacy\<close>
  from T3 strict_config_flags(4) report_example_legacy
  obtain status where b:
      "map_of (g_clientBslStatus legacy_after_report) ''viewer1'' = Some status"
      "\<And>k f. map_of (matchedVideos status) k = Some f \<Longrightarrow>
         \<exists>i<length (videos (PLAYLIST legacy_after_launch)). k = dec_string i
           \<and> (\<exists>cf\<in>set (fd_files viewer_report). file_name cf = f
                 \<and> match_justified legacy_strict example_statSize legacy_after_launch
                      (reporting_id ''viewer1'' viewer_report) cf
                      (videos (PLAYLIST legacy_after_launch) ! i))"
    by auto
  from b(1) have sl: "status = reported_status"
    by (simp add: legacy_after_report_fields)
  have m2: "match_at legacy_after_report None ''viewer1'' ''0'' = Some ''movie.mkv''"
    by (simp add: match_at_def legacy_after_report_fields reported_status_fields)
  from b(2) [of "''0''" "''movie.mkv''"] sl
  have j2: "match_justified legacy_strict example_statSize legacy_after_launch ''V1'' movie_file
              movie_item"
    by (auto simp: reported_status_fields legacy_after_launch_fields viewer_id)
  have retl: "\<exists>st' out. bsl_folder_selected legacy_strict example_statSize ''viewer1''
               viewer_report legacy_after_launch = Inr (st', out)"
    using T4 strict_config_flags viewer_id movie_ext
    by (simp add: legacy_after_launch_fields)
  have al: "after (bsl_folder_selected legacy_strict example_statSize ''viewer1'' viewer_report
               legacy_after_launch) = Some legacy_after_report"
    by (simp add: after_def report_example_legacy)
  \<comment> \<open>the manual match\<close>
  have k0: "int_key 0 = ''0''" by (simp add: int_key_def dec_string_0)
  from T5 strict_config_flags(1) room_of_socket_reported reported_room_fields
    manual_request_fields reported_status_fields(1) video_at_movie viewer_id(2) film_key
  obtain st' out r' status' where c:
      "bsl_manual_match strict_config ''admin1'' manual_request server_after_report = Inr (st', out)"
      "rooms st' ''ABC234'' = Some r'"
      "map_of (clientBslStatus r') ''viewer1'' = Some status'"
      "map_of (matchedVideos status') ''0'' = Some ''Film.mkv''"
      "remembered st' ''V1'' ''Film.mkv'' = Some ''movie.mkv''"
    by (auto simp: toUpperCase_ABC234 k0)
  then have m3: "manual_outcome (bsl_manual_match strict_config ''admin1'' manual_request
                        server_after_report) (Some ''ABC234'')
        = Some (Some ''Film.mkv'', Some ''movie.mkv'')"
    by (simp add: manual_outcome_def match_at_def)
  from T6 strict_config_flags(4) legacy_after_report_fields
    manual_request_fields reported_status_fields(1) video_at_movie viewer_id(2) film_key
  obtain st' out status' where e:
      "bsl_manual_match legacy_strict ''admin1'' manual_request legacy_after_report = Inr (st', out)"
      "map_of (g_clientBslStatus st') ''viewer1'' = Some status'"
      "map_of (matchedVideos status') ''0'' = Some ''Film.mkv''"
      "remembered st' ''V1'' ''Film.mkv'' = Some ''movie.mkv''"
    by (auto simp: k0)
  then have m4: "manual_outcome (bsl_manual_match legacy_strict ''admin1'' manual_request
                        legacy_after_report) None
        = Some (Some ''Film.mkv'', Some ''movie.mkv'')"
    by (simp add: manual_outcome_def match_at_def)
  show ?thesis
    using strict_config_flags room_of_socket_launched(1) launched_room_playlist viewer_id
      movie_ext report_example m1 j1 legacy_after_launch_fields(1) al m2 j2
      room_of_socket_reported reported_room_fields manual_request_fields
      reported_status_fields(1) video_at_movie film_key(1) m3 legacy_after_report_fields m4
    by simp
qed

lemma after_report:
  "viewer_matches server_after_report ''ABC234'' ''viewer1'' = Some [(''0'', ''movie.mkv'')]"
  "symmetry_in strict_config example_statSize server_after_report ''ABC234'' ''viewer1'' = Some True"
  by code_simp+

lemma after_relaunch:
  "playlist_files server_after_relaunch ''ABC234'' = Some [''Other.mp4'']"
  "viewer_matches server_after_relaunch ''ABC234'' ''viewer1'' = Some [(''0'', ''movie.mkv'')]"
  "symmetry_in strict_config example_statSize server_after_relaunch ''ABC234'' ''viewer1'' = Some False"
  by code_simp+

lemma after_kill:
  "playlist_files server_after_kill ''ABC234'' = Some []"
  "viewer_matches server_after_kill ''ABC234'' ''viewer1'' = Some [(''0'', ''movie.mkv'')]"
  "symmetry_in strict_config example_statSize server_after_kill ''ABC234'' ''viewer1'' = Some False"
  by code_simp+

text \<open>
  Claim C8, as stated: whenever a viewer's match map has \<open>matches[i] = f\<close>, \<open>i\<close> is a
  valid playlist index and \<open>f\<close> is the file name of item \<open>i\<close> up to case, or the match
  memory maps the viewer's fingerprint and \<open>f\<close> to that name, or the advanced score of
  \<open>(f, i)\<close> reaches the threshold.  This holds right after the viewer's report; the matches
  are not revised when the playlist changes.  With threshold 3: the viewer matches
  \<open>movie.mkv\<close> to item 0, \<open>Movie.mkv\<close>; the admin then launches \<open>Other.mp4\<close>, and
  the entry stays although none of the three conditions holds for it; or the admin clears the
  playlist, and the entry stays although index 0 is no longer valid.
\<close>

theorem stale_match_breaks_symmetry:
  "after (bsl_folder_selected strict_config example_statSize ''viewer1'' viewer_report
            server_after_launch) = Some server_after_report
   \<and> viewer_matches server_after_report ''ABC234'' ''viewer1'' = Some [(''0'', ''movie.mkv'')]
   \<and> symmetry_in strict_config example_statSize server_after_report ''ABC234'' ''viewer1''
       = Some True
   \<and> playlist_files server_after_relaunch ''ABC234'' = Some [''Other.mp4'']
   \<and> viewer_matches server_after_relaunch ''ABC234'' ''viewer1'' = Some [(''0'', ''movie.mkv'')]
   \<and> symmetry_in strict_config example_statSize server_after_relaunch ''ABC234'' ''viewer1''
       = Some False
   \<and> playlist_files server_after_kill ''ABC234'' = Some []
   \<and> viewer_matches server_after_kill ''ABC234'' ''viewer1'' = Some [(''0'', ''movie.mkv'')]
   \<and> symmetry_in strict_config example_statSize server_after_kill ''ABC234'' ''viewer1''
       = Some False"
  using after_report after_relaunch after_kill report_example by (simp add: after_def)

text \<open>What the amended claim leaves out.  The handler of \<open>bsl-manual-match\<close> stores the
  entry before it looks at the playlist: with an index outside the playlist the entry is
  stored and the match memory is not written.  A viewer may report under the id
  \<open>__proto__\<close>; a manual match for it then writes into \<open>Object.prototype\<close>.  Under the
  id \<open>constructor\<close> the match table is a built-in method: the report is stored, unless
  a file is named \<open>caller\<close>, and a manual match writes into the method.  A playlist
  item named \<open>Constructor\<close> makes the score of a client file with a type throw.\<close>

lemma manual_match_unchecked_index:
  "outcome_of (bsl_manual_match strict_config ''admin1'' (manual_request\<lparr>mm_playlistIndex := 7\<rparr>)
                 server_after_report) ''V1''
   = Inr (Some [(''0'', ''movie.mkv''), (''7'', ''Film.mkv'')], None)"
  by code_simp

lemma manual_match_prototype_write:
  "outcome_of (bsl_folder_selected strict_config example_statSize ''viewer1'' proto_report
                 server_after_launch) ''__proto__''
   = Inr (Some [(''0'', ''movie.mkv'')], None)"
  "outcome_of
     (case bsl_folder_selected strict_config example_statSize ''viewer1'' proto_report
             server_after_launch of
        Inl e \<Rightarrow> Inl e
      | Inr (st, out) \<Rightarrow> bsl_manual_match strict_config ''admin1'' manual_request st)
     ''__proto__''
   = Inl (PrototypeWrite ''film.mkv'' ''movie.mkv'')"
  by code_simp+

lemma report_with_method_id:
  "outcome_of (bsl_folder_selected strict_config example_statSize ''viewer1'' method_report
                 server_after_launch) ''constructor''
   = Inr (Some [(''0'', ''movie.mkv'')], None)"
  "outcome_of
     (bsl_folder_selected strict_config example_statSize ''viewer1''
        (method_report\<lparr> fd_files := [movie_file\<lparr> file_name := ''Caller'' \<rparr>] \<rparr>)
        server_after_launch) ''constructor''
   = Inl TypeError"
  "outcome_of
     (case bsl_folder_selected strict_config example_statSize ''viewer1'' method_report
             server_after_launch of
        Inl e \<Rightarrow> Inl e
      | Inr (st, out) \<Rightarrow> bsl_manual_match strict_config ''admin1'' manual_request st)
     ''constructor''
   = Inl (MethodWrite ''constructor'' ''film.mkv'' ''movie.mkv'')"
  by code_simp+

lemma report_throws:
  "outcome_of
     (bsl_folder_selected strict_config example_statSize ''viewer1'' viewer_report
        (fst (set_playlist no_tracks strict_config 1000 ''admin1''
                (launch [local_item ''Constructor'']) example_server)))
     ''V1''
   = Inl TypeError"
  by code_simp

end
